theory Spec2Isabelle
  imports Main "HOL-Library.Word"
begin

unbundle bit_operations_syntax

section \<open>Bytes, Buffers and binary strings\<close>

text \<open>
  The JavaScript sources pass wire data around as \<open>'binary'\<close> (latin1) strings, the
  TypeScript sources as Node \<open>Buffer\<close>s. Both are sequences of 8-bit units, so both are
  modelled as \<open>string\<close> (a list of 8-bit \<open>char\<close>). \<open>Buffer.from(s, 'binary')\<close> and
  \<open>buf.toString('binary')\<close> are then the identity. The 4-byte names that the
  sources decode with \<open>toString()\<close> (UTF-8) are kept as their bytes: on ASCII names,
  the only ones the catalogue and the magic \<open>acpp\<close> use, UTF-8 decoding is the identity,
  and no other byte sequence decodes to an ASCII string.
  JavaScript numbers that hold integers are modelled as \<open>int\<close>.
\<close>

type_synonym bytes = string

text \<open>
  Every \<open>throw\<close> of the sources is a value of \<open>error\<close>: \<open>Error msg\<close> for a thrown
  \<open>new Error\<close> with a fixed text, one constructor for each message that carries data,
  Node's own \<open>RangeError\<close> and \<open>TypeError\<close>, and \<open>InvalidIV\<close> for the error with which
  Node's \<open>crypto.createCipheriv\<close> rejects an initialization vector of the wrong length.
\<close>

datatype error =
    Error string
  | UnknownVersion int
  | UnknownCommand int
  | ErrorCode int
  | StageTwoErrorCode int
  | StageFourErrorCode int
  | PropertyError bytes int
  | InvalidPropertyName bytes
  | MissingHandler "string option"
  | InvalidValue "bytes option"
  | BadName string
  | BadType string string
  | MissingDescription string
  | RangeError
  | TypeError
  | InvalidIV

definition ebind :: "error + 'a \<Rightarrow> ('a \<Rightarrow> error + 'b) \<Rightarrow> error + 'b" where
  "ebind m f = (case m of Inl e \<Rightarrow> Inl e | Inr x \<Rightarrow> f x)"

definition NUL :: char where
  "NUL = CHR 0x00"

text \<open>\<open>''''.padEnd(n, '\x00')\<close>\<close>

definition zeros :: "nat \<Rightarrow> bytes" where
  "zeros n = replicate n NUL"

text \<open>\<open>s.padEnd(n, '\x00')\<close>: pads on the right, never truncates.\<close>

definition padEnd :: "bytes \<Rightarrow> nat \<Rightarrow> bytes" where
  "padEnd s n = s @ zeros (n - length s)"

text \<open>\<open>s.substr(start)\<close>: a negative start counts from the end, clamped at 0.\<close>

definition substr_from :: "bytes \<Rightarrow> int \<Rightarrow> bytes" where
  "substr_from s start =
     (if start < 0 then drop (nat (max 0 (int (length s) + start))) s
      else drop (nat start) s)"

text \<open>\<open>s.substr(0, len)\<close>: a negative length gives the empty string.\<close>

definition substr_to :: "bytes \<Rightarrow> int \<Rightarrow> bytes" where
  "substr_to s len = take (nat len) s"

text \<open>Big-endian value of a byte sequence.\<close>

definition be_val :: "bytes \<Rightarrow> int" where
  "be_val bs = foldl (\<lambda>acc c. acc * 256 + of_char c) 0 bs"

text \<open>The four big-endian bytes of a value (each byte taken modulo 256).\<close>

definition be32 :: "int \<Rightarrow> bytes" where
  "be32 v = [char_of (v div 16777216), char_of (v div 65536), char_of (v div 256), char_of v]"

text \<open>\<open>buf.readUInt32BE(off)\<close> and \<open>buf.readInt32BE(off)\<close>; Node throws a range error
  when the four bytes are not inside the buffer.\<close>

definition readUInt32BE :: "bytes \<Rightarrow> nat \<Rightarrow> error + int" where
  "readUInt32BE buf off =
     (if off + 4 \<le> length buf then Inr (be_val (take 4 (drop off buf))) else Inl RangeError)"

definition readInt32BE :: "bytes \<Rightarrow> nat \<Rightarrow> error + int" where
  "readInt32BE buf off =
     ebind (readUInt32BE buf off)
       (\<lambda>u. Inr (if u \<ge> 2147483648 then u - 4294967296 else u))"

text \<open>Copying bytes into a buffer at an offset; what does not fit is dropped.\<close>

definition write_at :: "bytes \<Rightarrow> nat \<Rightarrow> bytes \<Rightarrow> bytes" where
  "write_at buf off bs =
     (let w = take (length buf - off) bs
      in take off buf @ w @ drop (off + length w) buf)"

text \<open>\<open>buf.write(s, off, len, enc)\<close>: at most \<open>len\<close> bytes of \<open>s\<close> are written.\<close>

definition buf_write :: "bytes \<Rightarrow> bytes \<Rightarrow> nat \<Rightarrow> nat \<Rightarrow> bytes" where
  "buf_write buf s off len = write_at buf off (take len s)"

text \<open>\<open>buf.writeUInt32BE(v, off)\<close> and \<open>buf.writeInt32BE(v, off)\<close>; Node throws a
  range error when the value does not fit.\<close>

definition writeUInt32BE :: "bytes \<Rightarrow> int \<Rightarrow> nat \<Rightarrow> error + bytes" where
  "writeUInt32BE buf v off =
     (if 0 \<le> v \<and> v \<le> 4294967295 \<and> off + 4 \<le> length buf
      then Inr (write_at buf off (be32 v)) else Inl RangeError)"

definition writeInt32BE :: "bytes \<Rightarrow> int \<Rightarrow> nat \<Rightarrow> error + bytes" where
  "writeInt32BE buf v off =
     (if - 2147483648 \<le> v \<and> v \<le> 2147483647 \<and> off + 4 \<le> length buf
      then Inr (write_at buf off (be32 (v mod 4294967296))) else Inl RangeError)"

section \<open>Adler-32\<close>

text \<open>
  \<open>adler32.sum\<close> comes from the npm package \<open>adler32\<close>; it is the checksum of RFC 1950:
  two sums modulo 65521, starting from 1 and 0, packed as \<open>b * 65536 + a\<close>.
\<close>

definition adler_step :: "int \<times> int \<Rightarrow> char \<Rightarrow> int \<times> int" where
  "adler_step s c =
     (let a = (fst s + of_char c) mod 65521 in (a, (snd s + a) mod 65521))"

definition adler32 :: "bytes \<Rightarrow> int" where
  "adler32 bs = (let s = foldl adler_step (1, 0) bs in snd s * 65536 + fst s)"

section \<open>The header key (message.js, generateACPHeaderKey)\<close>

text \<open>
  \<open>generateACPKeystream\<close> lives in \<open>./keystream\<close>, which is not part of the sources at
  hand; it is a parameter \<open>gks\<close> of the model (the call \<open>gks n\<close> stands for
  \<open>generateACPKeystream(n)\<close>).

  \<open>s.charCodeAt(i)\<close> is \<open>NaN\<close> (here \<open>None\<close>) beyond the end of the string, and the
  operator \<open>^\<close> reads \<open>NaN\<close> as 0.
\<close>

definition charCodeAt :: "bytes \<Rightarrow> nat \<Rightarrow> int option" where
  "charCodeAt s i = (if i < length s then Some (of_char (s ! i)) else None)"

definition js_xor :: "int option \<Rightarrow> int option \<Rightarrow> int" where
  "js_xor a b = (case a of None \<Rightarrow> 0 | Some x \<Rightarrow> x) XOR (case b of None \<Rightarrow> 0 | Some y \<Rightarrow> y)"

definition fromCharCode :: "int \<Rightarrow> bytes" where
  "fromCharCode n = [char_of n]"

definition generateACPHeaderKey :: "(nat \<Rightarrow> bytes) \<Rightarrow> bytes \<Rightarrow> bytes" where
  "generateACPHeaderKey gks password =
     (let password_length = 32;
          password_key = gks password_length;
          password_buffer = padEnd (take password_length password) password_length
      in fold (\<lambda>i encrypted_password_buffer.
                 encrypted_password_buffer
                   @ fromCharCode (js_xor (charCodeAt password_key i) (charCodeAt password_buffer i)))
              [0..<password_length] [])"

text \<open>Byte-for-byte XOR of two byte sequences, as the claim about the header key words it.\<close>

definition xor_char :: "char \<Rightarrow> char \<Rightarrow> char" where
  "xor_char a b = char_of ((of_char a :: int) XOR of_char b)"

definition xor_bytes :: "bytes \<Rightarrow> bytes \<Rightarrow> bytes" where
  "xor_bytes xs ys = map2 xor_char xs ys"

section \<open>The message codec (message.js)\<close>

definition HEADER_MAGIC :: bytes where
  "HEADER_MAGIC = ''acpp''"

definition HEADER_SIZE :: nat where
  "HEADER_SIZE = 128"

text \<open>\<open>buf.slice(start, end)\<close>\<close>

definition buf_slice :: "bytes \<Rightarrow> nat \<Rightarrow> nat \<Rightarrow> bytes" where
  "buf_slice buf start end = take (end - start) (drop start buf)"

text \<open>The object that \<open>unpackHeader\<close> returns and \<open>packHeader\<close> takes. An absent
  \<open>pad1\<close> or \<open>pad2\<close> takes its default, the empty string.\<close>

record header_data =
  h_magic :: bytes
  h_version :: int
  h_header_checksum :: int
  h_body_checksum :: int
  h_body_size :: int
  h_flags :: int
  h_unused :: int
  h_command :: int
  h_error_code :: int
  h_key :: bytes
  h_pad1 :: bytes
  h_pad2 :: bytes

definition unpackHeader :: "bytes \<Rightarrow> error + header_data" where
  "unpackHeader data =
     (if length data \<noteq> HEADER_SIZE then Inl (Error ''Header data must be 128 bytes'')
      else
        let buffer = data;
            magic = buf_slice buffer 0 4
        in ebind (readInt32BE buffer 4) (\<lambda>version.
           ebind (readUInt32BE buffer 8) (\<lambda>header_checksum.
           ebind (readUInt32BE buffer 12) (\<lambda>body_checksum.
           ebind (readInt32BE buffer 16) (\<lambda>body_size.
           ebind (readInt32BE buffer 20) (\<lambda>flags.
           ebind (readInt32BE buffer 24) (\<lambda>unused.
           ebind (readInt32BE buffer 28) (\<lambda>command.
           ebind (readInt32BE buffer 32) (\<lambda>error_code.
             let pad1 = buf_slice buffer 36 (36 + 12);
                 key = buf_slice buffer 48 (48 + 32);
                 pad2 = buf_slice buffer 80 (80 + 48)
             in Inr \<lparr>h_magic = magic, h_version = version, h_header_checksum = header_checksum,
                      h_body_checksum = body_checksum, h_body_size = body_size, h_flags = flags,
                      h_unused = unused, h_command = command, h_error_code = error_code,
                      h_key = key, h_pad1 = pad1, h_pad2 = pad2\<rparr>)))))))))"

text \<open>\<open>s || pad\<close> with \<open>pad\<close> a run of NUL bytes: the empty string is falsy.\<close>

definition or_zeros :: "bytes \<Rightarrow> nat \<Rightarrow> bytes" where
  "or_zeros s n = (if s \<noteq> [] then s else zeros n)"

definition packHeader :: "header_data \<Rightarrow> error + bytes" where
  "packHeader h =
     (let buffer = zeros 128;
          buffer = buf_write buffer (h_magic h) 0 4
      in ebind (writeInt32BE buffer (h_version h) 4) (\<lambda>buffer.
         ebind (writeUInt32BE buffer (h_header_checksum h) 8) (\<lambda>buffer.
         ebind (writeUInt32BE buffer (h_body_checksum h) 12) (\<lambda>buffer.
         ebind (writeInt32BE buffer (h_body_size h) 16) (\<lambda>buffer.
         ebind (writeInt32BE buffer (h_flags h) 20) (\<lambda>buffer.
         ebind (writeInt32BE buffer (h_unused h) 24) (\<lambda>buffer.
         ebind (writeInt32BE buffer (h_command h) 28) (\<lambda>buffer.
         ebind (writeInt32BE buffer (h_error_code h) 32) (\<lambda>buffer.
           let buffer = buf_write buffer (or_zeros (h_pad1 h) 12) 36 (36 + 12);
               buffer = buf_write buffer (h_key h) 48 (48 + 32);
               buffer = buf_write buffer (or_zeros (h_pad2 h) 48) 80 (80 + 48)
           in Inr buffer)))))))))"

text \<open>The class \<open>Message\<close>. An absent body (\<open>undefined\<close>) is \<open>None\<close>.\<close>

record message =
  m_version :: int
  m_flags :: int
  m_unused :: int
  m_command :: int
  m_error_code :: int
  m_body_size :: int
  m_body_checksum :: int
  m_key :: bytes
  m_body :: "bytes option"

text \<open>The constructor; its last two arguments may be \<open>undefined\<close>.\<close>

definition Message ::
  "int \<Rightarrow> int \<Rightarrow> int \<Rightarrow> int \<Rightarrow> int \<Rightarrow> bytes \<Rightarrow> bytes option \<Rightarrow> int option \<Rightarrow> message" where
  "Message version flags unused command error_code key body body_size =
     (case body of
        None \<Rightarrow>
          \<lparr>m_version = version, m_flags = flags, m_unused = unused, m_command = command,
           m_error_code = error_code,
           m_body_size = (case body_size of Some n \<Rightarrow> n | None \<Rightarrow> - 1),
           m_body_checksum = 1, m_key = key, m_body = body\<rparr>
      | Some b \<Rightarrow>
          \<lparr>m_version = version, m_flags = flags, m_unused = unused, m_command = command,
           m_error_code = error_code,
           m_body_size = (case body_size of Some n \<Rightarrow> n | None \<Rightarrow> int (length b)),
           m_body_checksum = adler32 b, m_key = key, m_body = body\<rparr>)"

definition versions :: "int list" where
  "versions = [0x00000001, 0x00030001]"

definition commands :: "int list" where
  "commands = [1, 3, 4, 5, 6, 0x14, 0x15, 0x16, 0x17, 0x18, 0x19, 0x1a, 0x1b]"

text \<open>A string in a condition: \<open>undefined\<close> and the empty string are falsy.\<close>

definition truthy :: "bytes option \<Rightarrow> bool" where
  "truthy s = (case s of None \<Rightarrow> False | Some b \<Rightarrow> b \<noteq> [])"

text \<open>
  \<open>Message.parseRaw(data, return_remaining)\<close>. The result is the message, paired with
  the remaining data when \<open>return_remaining\<close> is set.
\<close>

definition parseRaw :: "bytes \<Rightarrow> bool \<Rightarrow> error + (message \<times> bytes option)" where
  "parseRaw data return_remaining =
     (if length data < HEADER_SIZE then Inl (Error ''Need to pass at least 128 bytes'')
      else
        let hdr = substr_to data (int HEADER_SIZE);
            body_data = (if length data > HEADER_SIZE
                         then Some (substr_from data (int HEADER_SIZE)) else None)
        in ebind (unpackHeader hdr) (\<lambda>h.
           if h_magic h \<noteq> HEADER_MAGIC then Inl (Error ''Bad header magic'')
           else if h_version h \<notin> set versions then Inl (UnknownVersion (h_version h))
           else
             ebind (packHeader (h\<lparr>h_header_checksum := 0\<rparr>)) (\<lambda>tmphdr.
               let expected_header_checksum = adler32 tmphdr
               in if h_header_checksum h \<noteq> expected_header_checksum
                  then Inl (Error ''Header checksum does not match'')
                  else
                    let body_data =
                          (if truthy body_data \<and> return_remaining
                           then map_option (\<lambda>b. substr_to b (h_body_size h)) body_data
                           else body_data)
                    in if truthy body_data \<and> h_body_size h = - 1
                       then Inl (Error ''Cannot handle stream header with data attached'')
                       else if (case body_data of None \<Rightarrow> False
                                | Some b \<Rightarrow> b \<noteq> [] \<and> h_body_size h \<noteq> int (length b))
                       then Inl (Error ''Message body size does not match available data'')
                       else if (case body_data of None \<Rightarrow> False
                                | Some b \<Rightarrow> b \<noteq> [] \<and> h_body_checksum h \<noteq> adler32 b)
                       then Inl (Error ''Body checksum does not match'')
                       else if h_command h \<notin> set commands then Inl (UnknownCommand (h_command h))
                       else
                         let message = Message (h_version h) (h_flags h) (h_unused h) (h_command h)
                                         (h_error_code h) (h_key h) body_data (Some (h_body_size h))
                         in if return_remaining
                            then Inr (message,
                                      Some (substr_from data (int HEADER_SIZE + h_body_size h)))
                            else Inr (message, None))))"

definition composeHeader :: "message \<Rightarrow> error + bytes" where
  "composeHeader m =
     ebind (packHeader
              \<lparr>h_magic = HEADER_MAGIC, h_version = m_version m, h_header_checksum = 0,
               h_body_checksum = m_body_checksum m, h_body_size = m_body_size m,
               h_flags = m_flags m, h_unused = m_unused m, h_command = m_command m,
               h_error_code = m_error_code m, h_key = m_key m, h_pad1 = [], h_pad2 = []\<rparr>)
       (\<lambda>tmphdr.
          packHeader
            \<lparr>h_magic = HEADER_MAGIC, h_version = m_version m, h_header_checksum = adler32 tmphdr,
             h_body_checksum = m_body_checksum m, h_body_size = m_body_size m,
             h_flags = m_flags m, h_unused = m_unused m, h_command = m_command m,
             h_error_code = m_error_code m, h_key = m_key m, h_pad1 = [], h_pad2 = []\<rparr>)"

definition composeRawPacket :: "message \<Rightarrow> error + bytes" where
  "composeRawPacket m =
     ebind (composeHeader m) (\<lambda>reply.
       Inr (if truthy (m_body m) then reply @ (case m_body m of Some b \<Rightarrow> b | None \<Rightarrow> [])
            else reply))"

definition composeGetPropCommand :: "(nat \<Rightarrow> bytes) \<Rightarrow> int \<Rightarrow> bytes \<Rightarrow> bytes \<Rightarrow> message" where
  "composeGetPropCommand gks flags password payload =
     Message 0x00030001 flags 0 0x14 0 (generateACPHeaderKey gks password) (Some payload) None"

definition composeSetPropCommand :: "(nat \<Rightarrow> bytes) \<Rightarrow> int \<Rightarrow> bytes \<Rightarrow> bytes \<Rightarrow> message" where
  "composeSetPropCommand gks flags password payload =
     Message 0x00030001 flags 0 0x15 0 (generateACPHeaderKey gks password) (Some payload) None"

text \<open>The ranges that \<open>writeInt32BE\<close> and \<open>writeUInt32BE\<close> accept.\<close>

definition int32 :: "int \<Rightarrow> bool" where
  "int32 v = (- 2147483648 \<le> v \<and> v \<le> 2147483647)"

definition uint32 :: "int \<Rightarrow> bool" where
  "uint32 v = (0 \<le> v \<and> v \<le> 4294967295)"

section \<open>The header layout, as the specification tabulates it\<close>

text \<open>
  The specification gives the header as a table of big-endian fields at fixed offsets.
  \<open>u32_at\<close> and \<open>i32_at\<close> read an unsigned and a signed 32-bit field at an offset;
  \<open>header_fields\<close> reads the whole table. They are compared with \<open>unpackHeader\<close> below.
\<close>

definition u32_at :: "bytes \<Rightarrow> nat \<Rightarrow> int" where
  "u32_at d off = be_val (buf_slice d off (off + 4))"

definition i32_at :: "bytes \<Rightarrow> nat \<Rightarrow> int" where
  "i32_at d off = (let u = u32_at d off in if u \<ge> 2147483648 then u - 4294967296 else u)"

definition header_fields :: "bytes \<Rightarrow> header_data" where
  "header_fields d =
     \<lparr>h_magic = buf_slice d 0 4, h_version = i32_at d 4, h_header_checksum = u32_at d 8,
      h_body_checksum = u32_at d 12, h_body_size = i32_at d 16, h_flags = i32_at d 20,
      h_unused = i32_at d 24, h_command = i32_at d 28, h_error_code = i32_at d 32,
      h_key = buf_slice d 48 80, h_pad1 = buf_slice d 36 48, h_pad2 = buf_slice d 80 128\<rparr>"

text \<open>
  The message that a successful parse returns, and the conditions under which the
  specification says that parsing fails, both read off the header table.
\<close>

definition parsed_message :: "bytes \<Rightarrow> message" where
  "parsed_message data =
     Message (i32_at data 4) (i32_at data 20) (i32_at data 24) (i32_at data 28) (i32_at data 32)
       (buf_slice data 48 80)
       (if length data > 128 then Some (drop 128 data) else None)
       (Some (i32_at data 16))"

definition parse_fails :: "bytes \<Rightarrow> bool" where
  "parse_fails data \<longleftrightarrow>
       length data < 128
     \<or> take 4 data \<noteq> ''acpp''
     \<or> i32_at data 4 \<notin> {0x00000001, 0x00030001}
     \<or> u32_at data 8 \<noteq> adler32 (take 8 data @ zeros 4 @ buf_slice data 12 128)
     \<or> i32_at data 28 \<notin> {1, 3, 4, 5, 6, 0x14, 0x15, 0x16, 0x17, 0x18, 0x19, 0x1a, 0x1b}
     \<or> (length data > 128 \<and> int (length (drop 128 data)) \<noteq> i32_at data 16)
     \<or> (length data > 128 \<and> adler32 (drop 128 data) \<noteq> u32_at data 12)
     \<or> (length data > 128 \<and> i32_at data 16 = - 1)"

text \<open>
  The header of a GetProp message without a body: version \<open>0x00030001\<close>, body checksum 1,
  body size 0, flags 0, command \<open>0x14\<close>, no error, a key of 32 NUL bytes.
\<close>

definition getprop_header :: bytes where
  "getprop_header =
     ''acpp'' @ [CHR 0x00, CHR 0x03, CHR 0x00, CHR 0x01] @ [CHR 0xD9, CHR 0xDC, CHR 0x01, CHR 0xBE]
     @ [CHR 0x00, CHR 0x00, CHR 0x00, CHR 0x01] @ zeros 4 @ zeros 4 @ zeros 4
     @ [CHR 0x00, CHR 0x00, CHR 0x00, CHR 0x14] @ zeros 4 @ zeros 12 @ zeros 32 @ zeros 48"

text \<open>Composing a message and parsing the result; the first four composed bytes.\<close>

definition roundtrip :: "message \<Rightarrow> error + (message \<times> bytes option)" where
  "roundtrip m = ebind (composeRawPacket m) (\<lambda>raw. parseRaw raw False)"

definition composed_magic :: "message \<Rightarrow> error + bytes" where
  "composed_magic m = ebind (composeRawPacket m) (\<lambda>raw. Inr (take 4 raw))"

text \<open>
  Three messages with a recognised version and command and a body whose length is the
  body size: one with an empty body, one with a one-byte key, one whose flags are
  \<open>0x80000000\<close>.
\<close>

definition msg_empty_body :: message where
  "msg_empty_body = Message 0x00030001 0 0 0x14 0 (zeros 32) (Some []) None"

definition msg_short_key :: message where
  "msg_short_key = Message 0x00030001 0 0 0x14 0 ''k'' (Some ''syAP'') None"

definition msg_big_flags :: message where
  "msg_big_flags = Message 0x00030001 0x80000000 0 0x14 0 (zeros 32) (Some ''syAP'') None"

text \<open>The hypotheses of the round-trip claim as it is stated.\<close>

definition claimed_shape :: "message \<Rightarrow> bool" where
  "claimed_shape m \<longleftrightarrow>
       m_version m \<in> {0x00000001, 0x00030001}
     \<and> m_command m \<in> {1, 3, 4, 5, 6, 0x14, 0x15, 0x16, 0x17, 0x18, 0x19, 0x1a, 0x1b}
     \<and> (case m_body m of None \<Rightarrow> False
          | Some b \<Rightarrow> m_body_size m = int (length b) \<and> m_body_checksum m = adler32 b)"

section \<open>The property catalogue (properties.ts)\<close>

text \<open>
  A validator of the catalogue is a function of the encoded value and the name, or an
  array of accepted values. A validator function may throw, so it returns a result.
\<close>

datatype validator =
    VFunction "bytes \<Rightarrow> bytes \<Rightarrow> error + bool"
  | VArray "int list"

text \<open>\<open>buf.readUIntBE(0, byteLength)\<close>: Node accepts 1 to 6 bytes.\<close>

definition readUIntBE :: "bytes \<Rightarrow> nat \<Rightarrow> error + int" where
  "readUIntBE buf byteLength =
     (if 1 \<le> byteLength \<and> byteLength \<le> 6 \<and> byteLength \<le> length buf
      then Inr (be_val (take byteLength buf)) else Inl RangeError)"

text \<open>\<open>Validators.range(from, to)\<close>\<close>

definition Validators_range :: "int \<Rightarrow> int \<Rightarrow> validator" where
  "Validators_range from to =
     VFunction (\<lambda>value name.
       ebind (readUIntBE value (length value)) (\<lambda>r.
         let n = r - from in Inr (0 \<le> n \<and> n \<le> to - from)))"

text \<open>
  The object \<open>_props\<close>, in the order of its keys: name, then type, description and
  validator (\<open>undefined\<close> is \<open>None\<close>). The entries that the source comments out are
  not part of the object.
\<close>

type_synonym catalogue = "(string \<times> string \<times> string \<times> validator option) list"

definition acp_properties :: catalogue where
  "acp_properties =
     [(''buil'', ''str'', ''Build string?'', None),
      (''DynS'', ''cfb'', ''DNS/Bonjour'', None),
      (''cfpf'', ''cfb'', ''??'', None),
      (''cloD'', ''cfb'', ''??'', None),
      (''fire'', ''cfb'', ''Firewall'', None),
      (''srcv'', ''str'', ''Source version'', None),
      (''syNm'', ''str'', ''Device name'', None),
      (''syPW'', ''str'', ''Router administration password'', None),
      (''syPR'', ''str'', ''syPR string???'', None),
      (''syGP'', ''str'', ''Router guest password???'', None),
      (''syDs'', ''str'', ''System description'', None),
      (''syVs'', ''str'', ''System version'', None),
      (''syVr'', ''str'', ''System version???'', None),
      (''syIn'', ''str'', ''System information???'', None),
      (''syFl'', ''hex'', ''????'', None),
      (''syAM'', ''str'', ''Model identifier'', None),
      (''syAP'', ''u32'', ''Product ID'', None),
      (''sySN'', ''str'', ''Serial number'', None),
      (''ssSK'', ''str'', ''Apple SKU'', None),
      (''syRe'', ''u32'', ''Country'', Some (Validators_range 0 54)),
      (''syLR'', ''cfb'', ''syLR blob'', None),
      (''syAR'', ''cfb'', ''syAR blob'', None),
      (''syUT'', ''u32'', ''System uptime'', None),
      (''minS'', ''str'', ''apple-minver'', None),
      (''chip'', ''str'', ''SoC description'', None),
      (''card'', ''str'', ''Hareware information??'', None),
      (''sySI'', ''cfb'', ''System info blob?'', None),
      (''TMEn'', ''hex'', ''TMEn???'', None),
      (''CLTM'', ''cfb'', ''CLTM???'', None),
      (''sPLL'', ''cfb'', ''??'', None),
      (''sySt'', ''cfb'', ''System Sstatus'', None),
      (''syIg'', ''cfb'', ''Ignored status codes'', None),
      (''syBL'', ''str'', ''Bootloader version string'', None),
      (''time'', ''u32'', ''System time'', None),
      (''timz'', ''cfb'', ''Timezone config blob'', None),
      (''usrd'', ''cfb'', ''Disk Sharing users'', None),
      (''uuid'', ''uid'', ''Device UUID'', None),
      (''sttE'', ''boo'', ''Send AirPort Analytics data to Apple'', None),
      (''stat'', ''cfb'', ''System debug data'', None),
      (''dSpn'', ''cfb'', ''Disk spin status?'', None),
      (''syMS'', ''str'', ''MLB serial number'', None),
      (''IGMP'', ''boo'', ''Enable IGMP Snooping'', None),
      (''diag'', ''ui8'', ''diag???'', None),
      (''raNm'', ''str'', ''Radio name'', None),
      (''raMA'', ''mac'', ''Wi-Fi MAC address'', None),
      (''raDS'', ''boo'', ''Enable DHCP server'', None),
      (''raNA'', ''boo'', ''Enable NAT'', None),
      (''raPo'', ''str'', ''Transmit Power'', None),
      (''raSL'', ''cfb'', ''Connected Wi-Fi clients'', None),
      (''raSR'', ''cfb'', ''Wi-Fi scan results'', None),
      (''WiFi'', ''cfb'', ''Wi-Fi configuration'', None),
      (''rCAL'', ''cfb'', ''Radio calibration data?'', None),
      (''peUN'', ''str'', ''PPPoE username'', None),
      (''pePW'', ''str'', ''PPPoE password'', None),
      (''waCV'', ''hex'', ''WAN config mode?'', None),
      (''waIn'', ''bin'', ''WAN interface mode?'', None),
      (''waD1'', ''ip4'', ''IPv4 DNS server #1'', None),
      (''waD2'', ''ip4'', ''IPv4 DNS server #2'', None),
      (''waD3'', ''ip4'', ''IPv4 DNS server #3'', None),
      (''waC1'', ''ip4'', ''Automatically obtained IPv4 DNS server #1'', None),
      (''waC2'', ''ip4'', ''Automatically obtained IPv4 DNS server #2'', None),
      (''waC3'', ''ip4'', ''Automatically obtained IPv4 DNS server #3'', None),
      (''waIP'', ''ip4'', ''WAN IPv4 address'', None),
      (''waSM'', ''ip4'', ''WAN IPv4 subnet mask'', None),
      (''waRA'', ''ip4'', ''WAN IPv4 router address'', None),
      (''waDC'', ''str'', ''WAN DHCP client ID'', None),
      (''waMA'', ''mac'', ''WAN MAC address'', None),
      (''waDN'', ''str'', ''DNS search domain'', None),
      (''waNM'', ''boo'', ''Disable setup over WAN'', None),
      (''waSD'', ''u32'', ''??'', None),
      (''waLL'', ''ip4'', ''IPv4 local link address??'', None),
      (''waDI'', ''cfb'', ''WAN DHCP info?'', None),
      (''laIP'', ''ip4'', ''LAN IPv4 address'', None),
      (''laSM'', ''ip4'', ''LAN IPv4 subnet mask'', None),
      (''laMA'', ''mac'', ''LAN MAC address'', None),
      (''dhBg'', ''ip4'', ''DHCP server start address'', None),
      (''dhEn'', ''ip4'', ''DHCP server end address'', None),
      (''dhSN'', ''ip4'', ''DHCP server subnet mask'', None),
      (''dhRo'', ''ip4'', ''??'', None),
      (''dhLe'', ''u32'', ''DHCP server lease time'', None),
      (''DRes'', ''cfb'', ''DHCP reservations'', None),
      (''dhSL'', ''cfb'', ''DHCP server leases'', None),
      (''gnFl'', ''u32'', ''??'', None),
      (''gnBg'', ''ip4'', ''Guest Network DHCP server start address'', None),
      (''gnEn'', ''ip4'', ''Guest Network DHCP server end address'', None),
      (''gnSN'', ''ip4'', ''Guest Network DHCP server subnet mask'', None),
      (''gnRo'', ''ip4'', ''Guest Network DHCP server router address'', None),
      (''gnLe'', ''u32'', ''Guest Network DHCP server lease time'', None),
      (''naFl'', ''u32'', ''Enable NAT-PMP'', Some (VArray [0, 1])),
      (''nDMZ'', ''ip4'', ''NAT Default Host'', None),
      (''tACL'', ''cfb'', ''Timed Access Control'', None),
      (''ntSV'', ''str'', ''NTP Server Hostname'', None),
      (''slvl'', ''u32'', ''System log level'', Some (Validators_range 0 7)),
      (''logm'', ''log'', ''System log data'', None),
      (''snAF'', ''u32'', ''Disable SNMP over WAN'', Some (VArray [0, 1])),
      (''USBi'', ''cfb'', ''USB Info'', None),
      (''prni'', ''cfb'', ''USB Printer Info'', None),
      (''prnI'', ''str'', ''USB Printer Name'', None),
      (''prnR'', ''bin'', ''USB Priner Info???'', None),
      (''MaSt'', ''cfb'', ''USB Mass Storage Info'', None),
      (''seFl'', ''bin'', ''????'', None),
      (''dbug'', ''hex'', ''Debug flags'', Some (Validators_range 0 4294967295)),
      (''ctim'', ''hex'', ''Default Settings ??'', None),
      (''isAC'', ''ui8'', ''Power'', Some (VArray [0, 1])),
      (''Prof'', ''cfb'', ''Restore Profile Blob'', None),
      (''leAc'', ''u32'', ''Status light'', Some (VArray [1, 2])),
      (''APID'', ''u32'', ''Model'', None),
      (''lcVs'', ''str'', ''lcVs Version String?'', None),
      (''wsci'', ''cfb'', ''wsci Blob'', None),
      (''OTPR'', ''hex'', ''machdep.otpval'', None),
      (''acRB'', ''dec'', ''Reboot device flag'', Some (VArray [0])),
      (''acRI'', ''dec'', ''Reload services??'', Some (VArray [0])),
      (''acRN'', ''dec'', ''Resets something... (?)'', Some (VArray [0])),
      (''acRF'', ''dec'', ''Reset to factory defaults'', Some (VArray [0])),
      (''LEDc'', ''u32'', ''LED colour/pattern'', Some (Validators_range 0 3)),
      (''GPIs'', ''bin'', ''GPIOs values'', Some (VFunction (\<lambda>value name. Inr (length value = 8)))),
      (''auNP'', ''str'', ''AirPlay Password'', None),
      (''auRR'', ''u16'', ''Enable AirPlay'', Some (VArray [0, 1])),
      (''auHK'', ''bpl'', ''AirPlay HomeKit pairing data'', None),
      (''auHE'', ''boo'', ''HomeKit pairing enabled'', None),
      (''fe01'', ''hex'', ''????'', None),
      (''feat'', ''str'', ''Supported features?'', None),
      (''prop'', ''str'', ''Valid acp properties'', None),
      (''hw01'', ''hex'', ''????'', None),
      (''pECC'', ''cfb'', ''PCIe ECC Blob?'', None),
      (''fugp'', ''str'', ''Firmware upgrade progress'', None),
      (''cks0'', ''hex'', ''Bootloader Flash Checksum'', None),
      (''cks1'', ''hex'', ''Primary Flash Checksum'', None),
      (''cks2'', ''hex'', ''Secondary Flash Checksum'', None),
      (''6cfg'', ''u32'', ''IPv6 mode'', None),
      (''6aut'', ''boo'', ''IPv6 autoconfiguration'', None),
      (''6Wad'', ''ip6'', ''WAN IPv6 address'', None),
      (''6Wgw'', ''ip6'', ''WAN IPv6 router address'', None),
      (''6Wte'', ''ip4'', ''IPv6 tunnel endpoint'', None),
      (''6Lfw'', ''boo'', ''Enable LAN IPv6'', None),
      (''6Lad'', ''ip6'', ''LAN IPv6 address'', None),
      (''6Lfx'', ''u32'', ''LAN IPv6 prefix length'', Some (Validators_range 0 128)),
      (''6sfw'', ''boo'', ''Enable IPv6 firewall'', None),
      (''6trd'', ''boo'', ''Allow Teredo'', None),
      (''6fwl'', ''cfb'', ''IPv6 firewall'', None),
      (''6NS1'', ''ip6'', ''IPv6 DNS server #1'', None),
      (''6NS2'', ''ip6'', ''IPv6 DNS server #2'', None),
      (''6NS3'', ''ip6'', ''IPv6 DNS server #3'', None),
      (''6PDa'', ''ip6'', ''LAN IPv6 address block'', None),
      (''6PDl'', ''u32'', ''LAN IPv6 prefix length'', Some (Validators_range 0 128)),
      (''6CWa'', ''ip6'', ''WAN IPv6 tunnel address'', None),
      (''6CWp'', ''u32'', ''WAN IPv6 tunnel prefix length'', Some (Validators_range 0 128)),
      (''6CWg'', ''ip6'', ''WAN IPv6 6to4 address'', None),
      (''6CLa'', ''ip6'', ''LAN IPv6 address'', None),
      (''6NSa'', ''ip6'', ''IPv6 DNS server #1'', None),
      (''6NSb'', ''ip6'', ''IPv6 DNS server #2'', None),
      (''6NSc'', ''ip6'', ''IPv6 DNS server #3'', None),
      (''6CPa'', ''ip6'', ''LAN IPv6 address'', None),
      (''6CPl'', ''u32'', ''LAN IPv6 prefix length'', None),
      (''6!at'', ''ui8'', ''??'', None),
      (''rteI'', ''cfb'', ''rteI Blob'', None),
      (''wbEn'', ''boo'', ''Enable wide-area Bonjour'', None),
      (''wbHN'', ''str'', ''Wide-area Bonjour hostname'', None),
      (''wbHU'', ''str'', ''Wide-area Bonjour TSIG key'', None),
      (''wbHP'', ''str'', ''Wide-area Bonjour TSIG pass'', None),
      (''wbAC'', ''boo'', ''Enable wide-area Bonjour DNS-SD'', None),
      (''iCld'', ''cfb'', ''Back to My Mac (iCloud) accounts'', None),
      (''iCLH'', ''cfb'', ''iCloud status'', None),
      (''SUEn'', ''boo'', ''Check for firmware update'', None),
      (''SUFq'', ''u32'', ''Update frequency'', None)]"

text \<open>The logical type tags that the specification documents.\<close>

definition documented_types :: "string list" where
  "documented_types =
     [''str'', ''dec'', ''hex'', ''log'', ''mac'', ''cfb'', ''bin'', ''u8'', ''u16'', ''u32'',
      ''ui8'', ''ip4'', ''ip6'', ''uid'', ''boo'', ''bpl'']"

section \<open>Properties (property.ts)\<close>

record PropData =
  pd_name :: string
  pd_type :: string
  pd_description :: string
  pd_validator :: "validator option"

definition types :: "string list" where
  "types = [''str'', ''dec'', ''hex'', ''log'', ''mac'', ''cfb'', ''bin'']"

text \<open>\<open>generateACPProperties\<close>: the loop over the entries of the catalogue, with the
  list \<open>props\<close> built so far.\<close>

fun generateACPProperties_loop :: "catalogue \<Rightarrow> PropData list \<Rightarrow> error + PropData list" where
  "generateACPProperties_loop [] props = Inr props"
| "generateACPProperties_loop ((name, type, description, validator) # rest) props =
     (if length name \<noteq> 4 then Inl (BadName name)
      else if type \<notin> set types then Inl (BadType name type)
      else if description = [] then Inl (MissingDescription name)
      else generateACPProperties_loop rest
             (props @ [\<lparr>pd_name = name, pd_type = type, pd_description = description,
                        pd_validator = validator\<rparr>]))"

definition generateACPProperties :: "catalogue \<Rightarrow> error + PropData list" where
  "generateACPProperties cat = generateACPProperties_loop cat []"

definition ELEMENT_HEADER_SIZE :: nat where
  "ELEMENT_HEADER_SIZE = 12"

text \<open>
  A value handed to the \<open>Property\<close> constructor or stored in a property: a
  \<open>Buffer\<close>, a string or a number. \<open>undefined\<close> is \<open>None\<close>. A Buffer is an object and
  always truthy; a string is truthy unless empty, a number unless 0.
\<close>

datatype pvalue =
    Buffer bytes
  | String bytes
  | Number int

definition value_truthy :: "pvalue option \<Rightarrow> bool" where
  "value_truthy v =
     (case v of None \<Rightarrow> False
      | Some (Buffer b) \<Rightarrow> True
      | Some (String s) \<Rightarrow> s \<noteq> []
      | Some (Number n) \<Rightarrow> n \<noteq> 0)"

text \<open>\<open>s.split(sep)\<close> for a one-character separator.\<close>

fun split_on :: "char \<Rightarrow> bytes \<Rightarrow> bytes list" where
  "split_on sep [] = [[]]"
| "split_on sep (c # cs) =
     (if c = sep then [] # split_on sep cs
      else (case split_on sep cs of [] \<Rightarrow> [[c]] | w # ws \<Rightarrow> (c # w) # ws))"

text \<open>\<open>Buffer.from(s, 'hex')\<close>: pairs of hex digits, up to the first pair that is not one.\<close>

definition hex_digit :: "char \<Rightarrow> int option" where
  "hex_digit c =
     (let n = (of_char c :: int)
      in if 48 \<le> n \<and> n \<le> 57 then Some (n - 48)
         else if 97 \<le> n \<and> n \<le> 102 then Some (n - 87)
         else if 65 \<le> n \<and> n \<le> 70 then Some (n - 55)
         else None)"

fun hex_decode :: "bytes \<Rightarrow> bytes" where
  "hex_decode (a # b # rest) =
     (case (hex_digit a, hex_digit b) of
        (Some x, Some y) \<Rightarrow> char_of (16 * x + y) # hex_decode rest
      | _ \<Rightarrow> [])"
| "hex_decode _ = []"

text \<open>The number case of the \<open>dec\<close> and \<open>hex\<close> initialisers: four big-endian bytes.\<close>

definition number_buffer :: "int \<Rightarrow> error + bytes" where
  "number_buffer n = writeUInt32BE (zeros 4) n 0"

text \<open>\<open>ValueInitialisers[prop_type]\<close>: the handlers of the seven types that have one.\<close>

definition init_number :: "pvalue \<Rightarrow> error + bytes" where
  "init_number v =
     (case v of Buffer b \<Rightarrow> Inr b | Number n \<Rightarrow> number_buffer n | String s \<Rightarrow> Inr s)"

definition init_mac :: "pvalue \<Rightarrow> error + bytes" where
  "init_mac v =
     (case v of
        Buffer b \<Rightarrow> Inr b
      | String s \<Rightarrow>
          if length s = 6 then Inr s
          else let mac_bytes = split_on (CHR '':'') s
               in if length mac_bytes = 6 then Inr (hex_decode (concat mac_bytes))
                  else Inl (Error ''Invalid mac value'')
      | Number n \<Rightarrow> Inl (Error ''Invalid mac value''))"

definition init_bytes :: "string \<Rightarrow> pvalue \<Rightarrow> error + bytes" where
  "init_bytes msg v =
     (case v of Buffer b \<Rightarrow> Inr b | String s \<Rightarrow> Inr s | Number n \<Rightarrow> Inl (Error msg))"

definition ValueInitialisers :: "string \<Rightarrow> (pvalue \<Rightarrow> error + bytes) option" where
  "ValueInitialisers prop_type =
     (if prop_type = ''dec'' then Some init_number
      else if prop_type = ''hex'' then Some init_number
      else if prop_type = ''mac'' then Some init_mac
      else if prop_type = ''bin'' then Some (init_bytes ''Invalid bin value'')
      else if prop_type = ''cfb'' then Some (init_bytes ''Invalid cfb value'')
      else if prop_type = ''log'' then Some (init_bytes ''Invalid log value'')
      else if prop_type = ''str'' then Some (init_bytes ''Invalid str value'')
      else None)"

text \<open>
  The class \<open>Property\<close>. The module-level table \<open>props\<close>, the value of
  \<open>generateACPProperties()\<close>, is a parameter of everything that reads it.
\<close>

record property =
  p_name :: "bytes option"
  p_value :: "pvalue option"

definition getSupportedPropertyNames :: "PropData list \<Rightarrow> string list" where
  "getSupportedPropertyNames props = map pd_name props"

text \<open>\<open>getPropertyInfoString(propName, key)\<close> for the keys \<open>type\<close> and \<open>validator\<close>;
  a falsy name, an unknown name and a falsy entry give \<open>undefined\<close>.\<close>

definition getPropertyInfoString_type :: "PropData list \<Rightarrow> bytes option \<Rightarrow> string option" where
  "getPropertyInfoString_type props propName =
     (if \<not> truthy propName then None
      else (case find (\<lambda>p. Some (pd_name p) = propName) props of
              None \<Rightarrow> None
            | Some prop \<Rightarrow> if pd_type prop = [] then None else Some (pd_type prop)))"

definition getPropertyInfoString_validator ::
  "PropData list \<Rightarrow> bytes option \<Rightarrow> validator option" where
  "getPropertyInfoString_validator props propName =
     (if \<not> truthy propName then None
      else (case find (\<lambda>p. Some (pd_name p) = propName) props of
              None \<Rightarrow> None
            | Some prop \<Rightarrow> pd_validator prop))"

text \<open>Calling the validator: an array is not a function.\<close>

definition call_validator :: "validator \<Rightarrow> bytes \<Rightarrow> bytes option \<Rightarrow> error + bool" where
  "call_validator validator v name =
     (case validator of
        VFunction f \<Rightarrow> f v (case name of Some n \<Rightarrow> n | None \<Rightarrow> [])
      | VArray xs \<Rightarrow> Inl TypeError)"

text \<open>The constructor \<open>new Property(name, value)\<close>.\<close>

definition Property :: "PropData list \<Rightarrow> bytes option \<Rightarrow> pvalue option \<Rightarrow> error + property" where
  "Property props name0 value0 =
     (let sentinel = (name0 = Some (zeros 4) \<and> value0 = Some (String (zeros 4)));
          name = (if sentinel then None else name0);
          value = (if sentinel then None else value0)
      in if truthy name
            \<and> (case name of Some n \<Rightarrow> n \<notin> set (getSupportedPropertyNames props) | None \<Rightarrow> False)
         then Inl (InvalidPropertyName (case name of Some n \<Rightarrow> n | None \<Rightarrow> []))
         else if value_truthy value then
           (case getPropertyInfoString_type props name of
              None \<Rightarrow> Inl (MissingHandler None)
            | Some prop_type \<Rightarrow>
                (case ValueInitialisers prop_type of
                   None \<Rightarrow> Inl (MissingHandler (Some prop_type))
                 | Some initialiser \<Rightarrow>
                     ebind (initialiser (case value of Some x \<Rightarrow> x | None \<Rightarrow> Buffer [])) (\<lambda>v.
                       (case getPropertyInfoString_validator props name of
                          None \<Rightarrow> Inr \<lparr>p_name = name, p_value = Some (Buffer v)\<rparr>
                        | Some validator \<Rightarrow>
                            ebind (call_validator validator v name) (\<lambda>ok.
                              if \<not> ok then Inl (InvalidValue name)
                              else Inr \<lparr>p_name = name, p_value = Some (Buffer v)\<rparr>)))))
         else Inr \<lparr>p_name = name, p_value = value\<rparr>)"

text \<open>\<open>Property.packHeader\<close> and \<open>Property.unpackHeader\<close>: the 12-byte element header.\<close>

record HeaderData =
  hd_name :: bytes
  hd_flags :: int
  hd_size :: int

definition Property_packHeader :: "HeaderData \<Rightarrow> error + bytes" where
  "Property_packHeader header_data =
     (let buffer = zeros 12;
          buffer = buf_write buffer (hd_name header_data) 0 4
      in ebind (writeUInt32BE buffer (hd_flags header_data) 4) (\<lambda>buffer.
         ebind (writeUInt32BE buffer (hd_size header_data) 8) (\<lambda>buffer.
           Inr buffer)))"

definition Property_unpackHeader :: "bytes \<Rightarrow> error + HeaderData" where
  "Property_unpackHeader header_data =
     (if length header_data \<noteq> ELEMENT_HEADER_SIZE
      then Inl (Error ''Header data must be 12 characters'')
      else
        let buffer = header_data;
            name = buf_slice buffer 0 4
        in ebind (readUInt32BE buffer 4) (\<lambda>flags.
           ebind (readUInt32BE buffer 8) (\<lambda>size.
             Inr \<lparr>hd_name = name, hd_flags = flags, hd_size = size\<rparr>)))"

text \<open>\<open>composeRawElementHeader\<close> catches an error only to log and rethrow it.\<close>

definition composeRawElementHeader :: "bytes \<Rightarrow> int \<Rightarrow> int \<Rightarrow> error + bytes" where
  "composeRawElementHeader name flags sz =
     Property_packHeader \<lparr>hd_name = name, hd_flags = flags, hd_size = sz\<rparr>"

definition composeRawElement :: "int \<Rightarrow> property \<Rightarrow> error + bytes" where
  "composeRawElement flags property =
     (let name = (if truthy (p_name property)
                  then (case p_name property of Some n \<Rightarrow> n | None \<Rightarrow> [])
                  else zeros 4);
          value = (case p_value property of
                     Some (Buffer b) \<Rightarrow> Buffer b
                   | Some (Number n) \<Rightarrow> Number n
                   | Some (String s) \<Rightarrow> if s \<noteq> [] then Buffer s else Buffer (zeros 4)
                   | None \<Rightarrow> Buffer (zeros 4))
      in (case value of
            Number n \<Rightarrow>
              ebind (number_buffer n) (\<lambda>buffer.
              ebind (composeRawElementHeader name flags 4) (\<lambda>header.
                Inr (header @ buffer)))
          | Buffer b \<Rightarrow>
              ebind (composeRawElementHeader name flags (int (length b))) (\<lambda>header.
                Inr (header @ b))
          | String s \<Rightarrow> Inl (Error ''Unhandled property type for raw element composition'')))"

text \<open>
  The request of \<open>Client.getProperties\<close> and of \<open>Client.setProperties\<close>. An argument
  of \<open>getProperties\<close> is a name or a \<open>Property\<close>. The loop appends each element to the
  string \<open>payload\<close>; the conversion of the element to a string is the identity on bytes
  below \<open>0x80\<close>.
\<close>

datatype prop_arg =
    ByName bytes
  | ByProperty property

fun getProperties_payload :: "PropData list \<Rightarrow> prop_arg list \<Rightarrow> bytes \<Rightarrow> error + bytes" where
  "getProperties_payload props [] payload = Inr payload"
| "getProperties_payload props (name # rest) payload =
     ebind (case name of ByProperty p \<Rightarrow> Inr p | ByName n \<Rightarrow> Property props (Some n) None)
       (\<lambda>p. ebind (composeRawElement 0 p)
          (\<lambda>element. getProperties_payload props rest (payload @ element)))"

definition getProperties_request ::
  "PropData list \<Rightarrow> (nat \<Rightarrow> bytes) \<Rightarrow> bytes \<Rightarrow> prop_arg list \<Rightarrow> error + message" where
  "getProperties_request props gks password names =
     ebind (getProperties_payload props names [])
       (\<lambda>payload. Inr (composeGetPropCommand gks 4 password payload))"

fun setProperties_payload :: "property list \<Rightarrow> bytes \<Rightarrow> error + bytes" where
  "setProperties_payload [] payload = Inr payload"
| "setProperties_payload (prop # rest) payload =
     ebind (composeRawElement 0 prop)
       (\<lambda>element. setProperties_payload rest (payload @ element))"

definition setProperties_request ::
  "(nat \<Rightarrow> bytes) \<Rightarrow> bytes \<Rightarrow> property list \<Rightarrow> error + message" where
  "setProperties_request gks password props =
     ebind (setProperties_payload props [])
       (\<lambda>payload. Inr (composeSetPropCommand gks 0 password payload))"

text \<open>\<open>Client.reboot\<close> builds \<open>new Property('acRB', 0)\<close> and hands it to
  \<open>setProperties\<close>.\<close>

definition reboot_request :: "PropData list \<Rightarrow> (nat \<Rightarrow> bytes) \<Rightarrow> bytes \<Rightarrow> error + message" where
  "reboot_request props gks password =
     ebind (Property props (Some ''acRB'') (Some (Number 0)))
       (\<lambda>p. setProperties_request gks password [p])"

text \<open>The body of the request that \<open>getProperties\<close> sends.\<close>

definition getProperties_body ::
  "PropData list \<Rightarrow> (nat \<Rightarrow> bytes) \<Rightarrow> bytes \<Rightarrow> prop_arg list \<Rightarrow> error + bytes option" where
  "getProperties_body props gks password names =
     ebind (getProperties_request props gks password names) (\<lambda>request. Inr (m_body request))"

text \<open>Two property tables, each with one entry of the catalogue.\<close>

definition syAP_table :: "PropData list" where
  "syAP_table =
     [\<lparr>pd_name = ''syAP'', pd_type = ''u32'', pd_description = ''Product ID'',
       pd_validator = None\<rparr>]"

definition acRB_table :: "PropData list" where
  "acRB_table =
     [\<lparr>pd_name = ''acRB'', pd_type = ''dec'', pd_description = ''Reboot device flag'',
       pd_validator = Some (VArray [0])\<rparr>]"

section \<open>The session transport (session.ts)\<close>

text \<open>
  The session is a record of the fields of the class \<open>Session\<close> that the operations
  below read or write, together with what the operations do to the outside: the data
  written to the socket, the \<open>monitor-data\<close> events emitted, the lines sent to the
  console, and the wall clock \<open>Date.now()\<close>. The type \<open>'v\<close> is the type of the values
  that \<open>CFLBinaryPList.parse\<close> returns; the parser is not part of the sources at hand
  and is a parameter \<open>parse\<close> of the operations that call it.

  The encryption context is kept as the three values it is built from; the ciphers of
  Node's crypto module are outside the model, and data written under a context is kept
  as \<open>Encrypted\<close> with the context and the plain bytes.
\<close>

datatype encryption =
    ClientEncryption bytes bytes bytes
  | ServerEncryption bytes bytes bytes

datatype wire =
    Plain bytes
  | Encrypted encryption bytes

datatype console =
    Warn string
  | ConsoleError string

record 'v session =
  s_socket :: bool
  s_buffer :: bytes
  s_reading :: int
  s_encryption :: "encryption option"
  s_now :: int
  s_written :: "wire list"
  s_monitor_data :: "'v list"
  s_console :: "console list"

text \<open>
  The event loop is single-threaded: while an operation runs, nothing else happens, and
  time passes and socket data arrives only while it sleeps in
  \<open>await new Promise(r => setTimeout(r, 1))\<close>. A \<open>tick\<close> is one such sleep: the
  milliseconds that pass, and the bytes that the \<open>data\<close> handler of the socket appends to
  the buffer meanwhile (after decryption; inside a receive the handler does nothing else,
  since \<open>reading\<close> is not 0). The list of ticks given to an operation is what happens
  while it is observed; an operation that still sleeps when the list ends has not
  returned, which is the result \<open>None\<close>.
\<close>

record tick =
  elapsed :: nat
  arrived :: bytes

definition sleep :: "tick \<Rightarrow> 'v session \<Rightarrow> 'v session" where
  "sleep t s = s\<lparr>s_now := s_now s + int (elapsed t), s_buffer := s_buffer s @ arrived t\<rparr>"

text \<open>\<open>buf.slice(start, end)\<close> with any integers: a negative index counts from the end,
  and indices are clamped to the buffer.\<close>

definition clamp_index :: "nat \<Rightarrow> int \<Rightarrow> nat" where
  "clamp_index len i = (if i < 0 then nat (max 0 (int len + i)) else min (nat i) len)"

definition Buffer_slice :: "bytes \<Rightarrow> int \<Rightarrow> int option \<Rightarrow> bytes" where
  "Buffer_slice buf start end =
     (let s = clamp_index (length buf) start;
          e = (case end of None \<Rightarrow> length buf | Some i \<Rightarrow> clamp_index (length buf) i)
      in take (e - s) (drop s buf))"

text \<open>
  \<open>Session.receiveSize\<close>: the \<open>while (waiting_for > 0)\<close> loop, then the function. The
  buffer is a \<open>Buffer\<close> object, so the test \<open>if (this.buffer)\<close> in the loop always
  succeeds. The \<open>finally\<close> block decrements \<open>reading\<close> on both exits.
\<close>

fun receiveSize_loop ::
  "int \<Rightarrow> tick list \<Rightarrow> 'v session \<Rightarrow> int \<Rightarrow> bytes list \<Rightarrow> int
     \<Rightarrow> ((error + bytes) \<times> 'v session \<times> tick list) option" where
  "receiveSize_loop timeout [] s waiting_for received_chunks last_received_at =
     (if waiting_for > 0 then
        if last_received_at > s_now s + timeout then Some (Inl (Error ''Timeout''), s, [])
        else None
      else Some (Inr (concat received_chunks), s, []))"
| "receiveSize_loop timeout (t # ticks) s waiting_for received_chunks last_received_at =
     (if waiting_for > 0 then
        if last_received_at > s_now s + timeout then Some (Inl (Error ''Timeout''), s, t # ticks)
        else
          let s = sleep t s;
              received = Buffer_slice (s_buffer s) 0 (Some waiting_for);
              waiting_for = waiting_for - int (length received);
              received_chunks = received_chunks @ [received];
              s = s\<lparr>s_buffer := Buffer_slice (s_buffer s) (int (length received)) None\<rparr>;
              last_received_at = s_now s
          in receiveSize_loop timeout ticks s waiting_for received_chunks last_received_at
      else Some (Inr (concat received_chunks), s, t # ticks))"

definition receiveSize ::
  "int \<Rightarrow> int option \<Rightarrow> 'v session \<Rightarrow> tick list
     \<Rightarrow> ((error + bytes) \<times> 'v session \<times> tick list) option" where
  "receiveSize sz timeout_arg s ticks =
     (let timeout = (case timeout_arg of None \<Rightarrow> 10000 | Some t \<Rightarrow> t);
          s = s\<lparr>s_reading := s_reading s + 1\<rparr>;
          chunk = Buffer_slice (s_buffer s) 0 (Some sz);
          s = s\<lparr>s_buffer := Buffer_slice (s_buffer s) sz None\<rparr>;
          waiting_for = sz - int (length chunk);
          last_received_at = s_now s
      in map_option (\<lambda>(r, s, ticks). (r, s\<lparr>s_reading := s_reading s - 1\<rparr>, ticks))
           (receiveSize_loop timeout ticks s waiting_for [chunk] last_received_at))"

definition receive ::
  "int \<Rightarrow> int option \<Rightarrow> 'v session \<Rightarrow> tick list
     \<Rightarrow> ((error + bytes) \<times> 'v session \<times> tick list) option" where
  "receive sz timeout s ticks = receiveSize sz timeout s ticks"

definition receiveMessageHeader ::
  "int option \<Rightarrow> 'v session \<Rightarrow> tick list \<Rightarrow> ((error + bytes) \<times> 'v session \<times> tick list) option" where
  "receiveMessageHeader timeout s ticks = receive (int HEADER_SIZE) timeout s ticks"

definition receivePropertyElementHeader ::
  "int option \<Rightarrow> 'v session \<Rightarrow> tick list \<Rightarrow> ((error + bytes) \<times> 'v session \<times> tick list) option" where
  "receivePropertyElementHeader timeout s ticks = receive (int ELEMENT_HEADER_SIZE) timeout s ticks"

text \<open>\<open>Session.handleMonitorData\<close> and \<open>Session.handleData\<close>; the argument of
  \<open>handleData\<close> is the buffer of the session.\<close>

definition handleMonitorData ::
  "(bytes \<Rightarrow> error + 'v) \<Rightarrow> 'v session \<Rightarrow> tick list
     \<Rightarrow> ((error + unit) \<times> 'v session \<times> tick list) option" where
  "handleMonitorData parse s ticks =
     (case receive 8 None s ticks of
        None \<Rightarrow> None
      | Some (Inl e, s, ticks) \<Rightarrow> Some (Inl e, s, ticks)
      | Some (Inr header, s, ticks) \<Rightarrow>
          (case readUInt32BE header 4 of
             Inl e \<Rightarrow> Some (Inl e, s, ticks)
           | Inr sz \<Rightarrow>
               (case receive sz None s ticks of
                  None \<Rightarrow> None
                | Some (Inl e, s, ticks) \<Rightarrow> Some (Inl e, s, ticks)
                | Some (Inr body, s, ticks) \<Rightarrow>
                    (case parse body of
                       Inr data \<Rightarrow>
                         Some (Inr (), s\<lparr>s_monitor_data := s_monitor_data s @ [data]\<rparr>, ticks)
                     | Inl err \<Rightarrow>
                         Some (Inr (),
                               s\<lparr>s_console := s_console s
                                    @ [ConsoleError ''Error parsing monitor data'']\<rparr>,
                               ticks)))))"

definition handleData ::
  "(bytes \<Rightarrow> error + 'v) \<Rightarrow> 'v session \<Rightarrow> tick list
     \<Rightarrow> ((error + unit) \<times> 'v session \<times> tick list) option" where
  "handleData parse s ticks =
     (let data = s_buffer s
      in if Buffer_slice data 0 (Some 2) = ''XE'' then handleMonitorData parse s ticks
         else Some (Inr (),
                    s\<lparr>s_console := s_console s @ [Warn ''Unknown data received''],
                      s_buffer := []\<rparr>,
                    ticks))"

text \<open>
  \<open>Session._handleData\<close>, which the \<open>data\<close> handler of the socket calls when
  \<open>reading\<close> is 0: the loop \<open>while (!this.reading && this.buffer.length)\<close>. An error
  of \<open>handleData\<close> is caught and logged. A loop that never returns has no result.
\<close>

partial_function (option) handleData_loop ::
  "(bytes \<Rightarrow> error + 'v) \<Rightarrow> 'v session \<Rightarrow> tick list \<Rightarrow> ('v session \<times> tick list) option" where
  "handleData_loop parse s ticks =
     (if s_reading s = 0 \<and> s_buffer s \<noteq> [] then
        (case handleData parse s ticks of
           None \<Rightarrow> None
         | Some (Inl err, s, ticks) \<Rightarrow>
             handleData_loop parse
               (s\<lparr>s_console := s_console s @ [ConsoleError ''Error handling data'']\<rparr>) ticks
         | Some (Inr u, s, ticks) \<Rightarrow> handleData_loop parse s ticks)
      else Some (s, ticks))"

declare handleData_loop.simps [code]

text \<open>\<open>Session.send\<close> of a message; the write to the socket is taken to complete at
  once.\<close>

definition send :: "message \<Rightarrow> 'v session \<Rightarrow> (error + unit) \<times> 'v session" where
  "send msg s =
     (case composeRawPacket msg of
        Inl e \<Rightarrow> (Inl e, s)
      | Inr data \<Rightarrow>
          let data = (case s_encryption s of None \<Rightarrow> Plain data | Some e \<Rightarrow> Encrypted e data)
          in if \<not> s_socket s then (Inl (Error ''Not connected''), s)
             else (Inr (), s\<lparr>s_written := s_written s @ [data]\<rparr>))"


text \<open>
  The \<open>data\<close> handler of the socket, for a chunk as it is after decryption: the chunk is
  appended to the buffer and, when \<open>reading\<close> is 0, \<open>_handleData\<close> is started; inside a
  receive nothing else happens. The events \<open>raw-data\<close> and \<open>data\<close>, which have no
  listener in the session, are left out.
\<close>

definition on_data ::
  "(bytes \<Rightarrow> error + 'v) \<Rightarrow> bytes \<Rightarrow> 'v session \<Rightarrow> tick list
     \<Rightarrow> ('v session \<times> tick list) option" where
  "on_data parse data s ticks =
     (let s = s\<lparr>s_buffer := s_buffer s @ data\<rparr>
      in if s_reading s = 0 then handleData_loop parse s ticks else Some (s, ticks))"




section \<open>The client (client.ts)\<close>









text \<open>
  \<open>Client.getProperties\<close>. The closure runs on the session that the queue hands it;
  the queue itself, which only serialises closures, is left out. First the loop
  \<open>while (true)\<close> over the elements of the reply, with the list \<open>props_with_values\<close>
  built so far; a loop that never returns has no result (\<open>None\<close>).
\<close>

partial_function (option) getProperties_loop ::
  "PropData list \<Rightarrow> property list \<Rightarrow> 'v session \<Rightarrow> tick list
     \<Rightarrow> ((error + property list) \<times> 'v session \<times> tick list) option" where
  "getProperties_loop props props_with_values s ticks =
     (case receivePropertyElementHeader None s ticks of
        None \<Rightarrow> None
      | Some (Inl e, s, ticks) \<Rightarrow> Some (Inl e, s, ticks)
      | Some (Inr prop_header, s, ticks) \<Rightarrow>
          (case Property_unpackHeader prop_header of
             Inl e \<Rightarrow> Some (Inl e, s, ticks)
           | Inr data \<Rightarrow>
               (case receive (hd_size data) None s ticks of
                  None \<Rightarrow> None
                | Some (Inl e, s, ticks) \<Rightarrow> Some (Inl e, s, ticks)
                | Some (Inr v, s, ticks) \<Rightarrow>
                    if hd_flags data AND 1 \<noteq> 0 then
                      (case readInt32BE v 0 of
                         Inl e \<Rightarrow> Some (Inl e, s, ticks)
                       | Inr error_code \<Rightarrow>
                           Some (Inl (PropertyError (hd_name data) error_code), s, ticks))
                    else
                      (case Property props (Some (hd_name data)) (Some (Buffer v)) of
                         Inl e \<Rightarrow> Some (Inl e, s, ticks)
                       | Inr prop \<Rightarrow>
                           if p_name prop = None \<and> p_value prop = None
                           then Some (Inr props_with_values, s, ticks)
                           else getProperties_loop props (props_with_values @ [prop]) s ticks))))"

declare getProperties_loop.simps [code]

definition getProperties ::
  "PropData list \<Rightarrow> (nat \<Rightarrow> bytes) \<Rightarrow> bytes \<Rightarrow> prop_arg list \<Rightarrow> 'v session \<Rightarrow> tick list
     \<Rightarrow> ((error + property list) \<times> 'v session \<times> tick list) option" where
  "getProperties props gks password names s ticks =
     (case getProperties_request props gks password names of
        Inl e \<Rightarrow> Some (Inl e, s, ticks)
      | Inr request \<Rightarrow>
          (case send request s of
             (Inl e, s) \<Rightarrow> Some (Inl e, s, ticks)
           | (Inr u, s) \<Rightarrow>
               (case receiveMessageHeader None s ticks of
                  None \<Rightarrow> None
                | Some (Inl e, s, ticks) \<Rightarrow> Some (Inl e, s, ticks)
                | Some (Inr reply, s, ticks) \<Rightarrow>
                    (case parseRaw reply False of
                       Inl e \<Rightarrow> Some (Inl e, s, ticks)
                     | Inr (reply_header, rest) \<Rightarrow>
                         if m_error_code reply_header \<noteq> 0
                         then Some (Inl (ErrorCode (m_error_code reply_header)), s, ticks)
                         else getProperties_loop props [] s ticks))))"

section \<open>Sessions and replies used as examples\<close>

text \<open>All the bytes that a session has buffered or receives during the given ticks.\<close>

definition pending :: "'v session \<Rightarrow> tick list \<Rightarrow> bytes" where
  "pending s ticks = s_buffer s @ concat (map arrived ticks)"

text \<open>A connected session with nothing buffered, at time 0.\<close>

definition idle_session :: "bytes session" where
  "idle_session =
     \<lparr>s_socket = True, s_buffer = [], s_reading = 0, s_encryption = None, s_now = 0,
      s_written = [], s_monitor_data = [], s_console = []\<rparr>"

text \<open>A property table with the entry of the catalogue for \<open>syNm\<close>.\<close>

definition syNm_table :: "PropData list" where
  "syNm_table =
     [\<lparr>pd_name = ''syNm'', pd_type = ''str'', pd_description = ''Device name'',
       pd_validator = None\<rparr>]"

text \<open>
  A reply to GetProp: the header of a GetProp message without error, the element
  \<open>syNm\<close> with the value \<open>Base\<close>, and the terminator element (the four-NUL name,
  flags 0, size 4, four NUL bytes).
\<close>

definition syNm_reply :: bytes where
  "syNm_reply =
     getprop_header
     @ ''syNm'' @ zeros 4 @ [CHR 0x00, CHR 0x00, CHR 0x00, CHR 0x04] @ ''Base''
     @ zeros 4 @ zeros 4 @ [CHR 0x00, CHR 0x00, CHR 0x00, CHR 0x04] @ zeros 4"

text \<open>A monitor frame: the magic \<open>XE\<close> and two more bytes, the body length 2, and a
  body of two bytes.\<close>

definition monitor_frame :: bytes where
  "monitor_frame =
     ''XE'' @ [CHR 0x00, CHR 0x95] @ [CHR 0x00, CHR 0x00, CHR 0x00, CHR 0x02]
     @ [CHR 0xD0, CHR 0x00]"





section \<open>Properties of the header key\<close>

lemma fold_snoc_upt:
  "fold (\<lambda>i acc. acc @ [f i]) [0..<n] [] = map f [0..<n]"
proof (induction n)
  case 0
  show ?case by simp
next
  case (Suc n)
  then show ?case by simp
qed

lemma generateACPHeaderKey_map:
  "generateACPHeaderKey gks p =
     map (\<lambda>i. char_of (js_xor (charCodeAt (gks 32) i) (charCodeAt (padEnd (take 32 p) 32) i)))
       [0..<32]"
  unfolding generateACPHeaderKey_def Let_def fromCharCode_def
  by (rule fold_snoc_upt)

lemma length_padEnd_take: "length (padEnd (take n p) n) = n"
  by (simp add: padEnd_def zeros_def)

lemma xor_bytes_nth_map:
  assumes "length xs = n" "length ys = n"
  shows "xor_bytes xs ys =
           map (\<lambda>i. char_of (js_xor (charCodeAt xs i) (charCodeAt ys i))) [0..<n]"
  using assms
  by (auto simp: xor_bytes_def list_eq_iff_nth_eq xor_char_def js_xor_def charCodeAt_def)

lemma xor_char_NUL: "xor_char c NUL = c"
  by (simp add: xor_char_def NUL_def)

lemma xor_bytes_zeros: "length xs = n \<Longrightarrow> xor_bytes xs (zeros n) = xs"
  by (auto simp: xor_bytes_def zeros_def list_eq_iff_nth_eq xor_char_NUL)

text \<open>
  C6. With a keystream generator that returns 32 bytes when asked for 32, the header
  key of a password \<open>p\<close> is those 32 keystream bytes XORed byte for byte with \<open>p\<close>
  truncated to 32 bytes and padded on the right with NUL bytes to 32; for the empty
  password it is the 32 keystream bytes themselves, and for \<open>admin\<close> it is the keystream
  XORed with \<open>admin\<close> followed by 27 NUL bytes.
\<close>

theorem generateACPHeaderKey_xor:
  assumes "length (gks 32) = 32"
  shows "generateACPHeaderKey gks p = xor_bytes (take 32 (gks 32)) (padEnd (take 32 p) 32)
       \<and> generateACPHeaderKey gks [] = take 32 (gks 32)
       \<and> generateACPHeaderKey gks ''admin'' = xor_bytes (take 32 (gks 32)) (''admin'' @ zeros 27)"
proof -
  have gen: "generateACPHeaderKey gks q = xor_bytes (take 32 (gks 32)) (padEnd (take 32 q) 32)"
    for q
    using assms
    by (simp add: generateACPHeaderKey_map
        xor_bytes_nth_map [where n = 32, OF _ length_padEnd_take])
  have empty: "padEnd (take 32 []) 32 = zeros 32"
    by (simp add: padEnd_def)
  have admin: "padEnd (take 32 ''admin'') 32 = ''admin'' @ zeros 27"
    by (simp add: padEnd_def)
  have "generateACPHeaderKey gks [] = take 32 (gks 32)"
    using assms by (simp only: gen empty) (simp add: xor_bytes_zeros)
  moreover have "generateACPHeaderKey gks ''admin''
                   = xor_bytes (take 32 (gks 32)) (''admin'' @ zeros 27)"
    by (simp only: gen admin)
  ultimately show ?thesis
    using gen [of p] by simp
qed

theorem generateACPHeaderKey_xor_witness:
  "length (replicate 32 (CHR ''k'')) = 32
   \<and> generateACPHeaderKey (\<lambda>n. replicate n (CHR ''k'')) ''admin''
       = xor_bytes (take 32 (replicate 32 (CHR ''k''))) (''admin'' @ zeros 27)
   \<and> generateACPHeaderKey (\<lambda>n. replicate n (CHR ''k'')) [] = replicate 32 (CHR ''k'')"
  using generateACPHeaderKey_xor [of "\<lambda>n. replicate n (CHR ''k'')" "''admin''"]
  by (simp add: padEnd_def)


section \<open>Big-endian fields and the header layout\<close>

lemma be_val_be32:
  assumes "0 \<le> u" "u < 4294967296"
  shows "be_val (be32 u) = u"
proof -
  define a where "a = u div 256"
  define b where "b = a div 256"
  define c where "c = b div 256"
  define r0 where "r0 = u mod 256"
  define r1 where "r1 = a mod 256"
  define r2 where "r2 = b mod 256"
  have ub: "u div 65536 = b"
    unfolding a_def b_def using zdiv_zmult2_eq [of 256 u 256] by simp
  have uc: "u div 16777216 = c"
    unfolding c_def ub [symmetric] using zdiv_zmult2_eq [of 256 u 65536] by simp
  have c0: "0 \<le> c" and c1: "c < 256"
    using assms unfolding uc [symmetric] by auto
  have cm: "c mod 256 = c" using c0 c1 by simp
  have e1: "u = 256 * a + r0" unfolding a_def r0_def by simp
  have e2: "a = 256 * b + r1" unfolding b_def r1_def by simp
  have e3: "b = 256 * c + r2" unfolding c_def r2_def by simp
  have "be_val (be32 u) = ((c * 256 + r2) * 256 + r1) * 256 + r0"
    by (simp add: be_val_def be32_def ub uc a_def [symmetric] cm r0_def r1_def r2_def)
  also have "\<dots> = 256 * (256 * (256 * c + r2) + r1) + r0"
    by (simp add: algebra_simps)
  also have "\<dots> = u"
    using e1 e2 e3 by simp
  finally show ?thesis .
qed

lemma of_char_bounds: "0 \<le> (of_char c :: int)" "(of_char c :: int) < 256"
proof -
  have "(of_char c :: int) = int (of_char c)" by (simp add: of_nat_of_char)
  then show "0 \<le> (of_char c :: int)" "(of_char c :: int) < 256"
    using nat_of_char_less_256 [of c] by linarith+
qed

lemma div256: "0 \<le> r \<Longrightarrow> r < 256 \<Longrightarrow> (q * 256 + r) div 256 = (q::int)"
  by simp

lemma char_of_step: "char_of (q * 256 + (of_char c :: int)) = c"
proof -
  have "char_of (q * 256 + (of_char c :: int)) = char_of (of_char c :: int)"
    by (subst char_of_quasi_inj) simp
  then show ?thesis by simp
qed

lemma be32_be_val:
  "be32 (be_val [a, b, c, d]) = [a, b, c, d]"
proof -
  let ?A = "of_char a :: int" and ?B = "of_char b :: int"
  let ?C = "of_char c :: int" and ?D = "of_char d :: int"
  note bd = of_char_bounds [of a] of_char_bounds [of b] of_char_bounds [of c] of_char_bounds [of d]
  have v: "be_val [a, b, c, d] = ((?A * 256 + ?B) * 256 + ?C) * 256 + ?D"
    by (simp add: be_val_def)
  have d1: "be_val [a, b, c, d] div 256 = (?A * 256 + ?B) * 256 + ?C"
    unfolding v using bd by (intro div256) auto
  have d2: "be_val [a, b, c, d] div 65536 = ?A * 256 + ?B"
    using zdiv_zmult2_eq [of 256 "be_val [a, b, c, d]" 256] bd unfolding d1
    by (simp add: div256)
  have d3: "be_val [a, b, c, d] div 16777216 = ?A"
    using zdiv_zmult2_eq [of 256 "be_val [a, b, c, d]" 65536] bd unfolding d2
    by (simp add: div256)
  show ?thesis
    unfolding be32_def d1 d2 d3 unfolding v
    by (simp only: char_of_step char_of_char)
qed

lemma length_be32 [simp]: "length (be32 v) = 4"
  by (simp add: be32_def)

lemma length_zeros [simp]: "length (zeros n) = n"
  by (simp add: zeros_def)

lemma take_zeros [simp]: "take k (zeros n) = zeros (min k n)"
  by (simp add: zeros_def)

lemma drop_zeros [simp]: "drop k (zeros n) = zeros (n - k)"
  by (simp add: zeros_def)

lemma zeros_0 [simp]: "zeros 0 = []"
  by (simp add: zeros_def)

lemma writeInt32BE_ok:
  "int32 v \<Longrightarrow> off + 4 \<le> length buf \<Longrightarrow>
   writeInt32BE buf v off = Inr (take off buf @ be32 (v mod 4294967296) @ drop (off + 4) buf)"
  by (simp add: writeInt32BE_def int32_def write_at_def)

lemma writeUInt32BE_ok:
  "uint32 v \<Longrightarrow> off + 4 \<le> length buf \<Longrightarrow>
   writeUInt32BE buf v off = Inr (take off buf @ be32 v @ drop (off + 4) buf)"
  by (simp add: writeUInt32BE_def uint32_def write_at_def)

lemma ebind_Inr [simp]: "ebind (Inr x) f = f x"
  by (simp add: ebind_def)

lemma ebind_Inl [simp]: "ebind (Inl e) f = Inl e"
  by (simp add: ebind_def)

lemma packHeader_explicit:
  assumes "int32 (h_version h)" "uint32 (h_header_checksum h)" "uint32 (h_body_checksum h)"
    "int32 (h_body_size h)" "int32 (h_flags h)" "int32 (h_unused h)" "int32 (h_command h)"
    "int32 (h_error_code h)"
    and m: "length (h_magic h) = 4" and k: "length (h_key h) = 32"
    and p1: "length p1 = 12" "or_zeros (h_pad1 h) 12 = p1"
    and p2: "length p2 = 48" "or_zeros (h_pad2 h) 48 = p2"
  shows "packHeader h =
     Inr (h_magic h @ be32 (h_version h mod 4294967296) @ be32 (h_header_checksum h)
          @ be32 (h_body_checksum h) @ be32 (h_body_size h mod 4294967296)
          @ be32 (h_flags h mod 4294967296) @ be32 (h_unused h mod 4294967296)
          @ be32 (h_command h mod 4294967296) @ be32 (h_error_code h mod 4294967296)
          @ p1 @ h_key h @ p2)"
proof -
  define f1 where "f1 = be32 (h_version h mod 4294967296)"
  define f2 where "f2 = be32 (h_header_checksum h)"
  define f3 where "f3 = be32 (h_body_checksum h)"
  define f4 where "f4 = be32 (h_body_size h mod 4294967296)"
  define f5 where "f5 = be32 (h_flags h mod 4294967296)"
  define f6 where "f6 = be32 (h_unused h mod 4294967296)"
  define f7 where "f7 = be32 (h_command h mod 4294967296)"
  define f8 where "f8 = be32 (h_error_code h mod 4294967296)"
  have len [simp]: "length f1 = 4" "length f2 = 4" "length f3 = 4" "length f4 = 4"
    "length f5 = 4" "length f6 = 4" "length f7 = 4" "length f8 = 4"
    by (simp_all add: f1_def f2_def f3_def f4_def f5_def f6_def f7_def f8_def)
  define b0 where "b0 = buf_write (zeros 128) (h_magic h) 0 4"
  define b1 where "b1 = h_magic h @ f1 @ zeros 120"
  define b2 where "b2 = h_magic h @ f1 @ f2 @ zeros 116"
  define b3 where "b3 = h_magic h @ f1 @ f2 @ f3 @ zeros 112"
  define b4 where "b4 = h_magic h @ f1 @ f2 @ f3 @ f4 @ zeros 108"
  define b5 where "b5 = h_magic h @ f1 @ f2 @ f3 @ f4 @ f5 @ zeros 104"
  define b6 where "b6 = h_magic h @ f1 @ f2 @ f3 @ f4 @ f5 @ f6 @ zeros 100"
  define b7 where "b7 = h_magic h @ f1 @ f2 @ f3 @ f4 @ f5 @ f6 @ f7 @ zeros 96"
  define b8 where "b8 = h_magic h @ f1 @ f2 @ f3 @ f4 @ f5 @ f6 @ f7 @ f8 @ zeros 92"
  define b9 where "b9 = h_magic h @ f1 @ f2 @ f3 @ f4 @ f5 @ f6 @ f7 @ f8 @ p1 @ zeros 80"
  define b10 where "b10 = h_magic h @ f1 @ f2 @ f3 @ f4 @ f5 @ f6 @ f7 @ f8 @ p1 @ h_key h @ zeros 48"
  define b11 where "b11 = h_magic h @ f1 @ f2 @ f3 @ f4 @ f5 @ f6 @ f7 @ f8 @ p1 @ h_key h @ p2"
  have b0: "b0 = h_magic h @ zeros 124"
    using m by (simp add: b0_def buf_write_def write_at_def)
  have s1: "writeInt32BE b0 (h_version h) 4 = Inr b1"
    using assms(1) m by (simp add: writeInt32BE_ok b0 b1_def f1_def)
  have s2: "writeUInt32BE b1 (h_header_checksum h) 8 = Inr b2"
    using assms(2) m by (simp add: writeUInt32BE_ok b1_def b2_def f2_def [symmetric])
  have s3: "writeUInt32BE b2 (h_body_checksum h) 12 = Inr b3"
    using assms(3) m by (simp add: writeUInt32BE_ok b2_def b3_def f3_def [symmetric])
  have s4: "writeInt32BE b3 (h_body_size h) 16 = Inr b4"
    using assms(4) m by (simp add: writeInt32BE_ok b3_def b4_def f4_def [symmetric])
  have s5: "writeInt32BE b4 (h_flags h) 20 = Inr b5"
    using assms(5) m by (simp add: writeInt32BE_ok b4_def b5_def f5_def [symmetric])
  have s6: "writeInt32BE b5 (h_unused h) 24 = Inr b6"
    using assms(6) m by (simp add: writeInt32BE_ok b5_def b6_def f6_def [symmetric])
  have s7: "writeInt32BE b6 (h_command h) 28 = Inr b7"
    using assms(7) m by (simp add: writeInt32BE_ok b6_def b7_def f7_def [symmetric])
  have s8: "writeInt32BE b7 (h_error_code h) 32 = Inr b8"
    using assms(8) m by (simp add: writeInt32BE_ok b7_def b8_def f8_def [symmetric])
  have s9: "buf_write b8 (or_zeros (h_pad1 h) 12) 36 (36 + 12) = b9"
    using m p1 by (simp add: buf_write_def write_at_def b8_def b9_def)
  have s10: "buf_write b9 (h_key h) 48 (48 + 32) = b10"
    using m p1 k by (simp add: buf_write_def write_at_def b9_def b10_def)
  have s11: "buf_write b10 (or_zeros (h_pad2 h) 48) 80 (80 + 48) = b11"
    using m p1 k p2 by (simp add: buf_write_def write_at_def b10_def b11_def)
  have "packHeader h = Inr b11"
    unfolding packHeader_def Let_def b0_def [symmetric]
    by (simp only: s1 s2 s3 s4 s5 s6 s7 s8 s9 s10 s11 ebind_Inr)
  then show ?thesis
    by (simp add: b11_def f1_def f2_def f3_def f4_def f5_def f6_def f7_def f8_def)
qed


lemma be_val4: "be_val [a, b, c, d] =
   of_char a * 16777216 + of_char b * 65536 + of_char c * 256 + of_char d"
  by (simp add: be_val_def)

lemma length4E:
  assumes "length g = 4"
  obtains a b c d where "g = [a, b, c, d]"
proof -
  from assms obtain a g1 where g: "g = a # g1" "length g1 = 3" by (cases g) auto
  then obtain b g2 where g1: "g1 = b # g2" "length g2 = 2" by (cases g1) auto
  then obtain c g3 where g2: "g2 = c # g3" "length g3 = 1" by (cases g2) auto
  then obtain d where "g3 = [d]" by (cases g3) auto
  with g g1 g2 that show ?thesis by simp
qed

lemma be32_be_val_len4: "length g = 4 \<Longrightarrow> be32 (be_val g) = g"
  by (erule length4E) (simp only: be32_be_val)

lemma be_val_range: 
  assumes "length g = 4" shows "0 \<le> be_val g" "be_val g \<le> 4294967295"
proof -
  from assms obtain a b c d where g: "g = [a, b, c, d]" by (rule length4E)
  note bd = of_char_bounds [of a] of_char_bounds [of b] of_char_bounds [of c] of_char_bounds [of d]
  show "0 \<le> be_val g" "be_val g \<le> 4294967295"
    unfolding g be_val4 using bd by linarith+
qed

lemma length_slice: "e \<le> length d \<Longrightarrow> length (buf_slice d s e) = e - s"
  by (simp add: buf_slice_def)

lemma u32_at_uint32: "off + 4 \<le> length d \<Longrightarrow> uint32 (u32_at d off)"
  using be_val_range [of "buf_slice d off (off + 4)"]
  by (simp add: u32_at_def uint32_def length_slice)

lemma i32_at_int32: "off + 4 \<le> length d \<Longrightarrow> int32 (i32_at d off)"
  using u32_at_uint32 [of off d]
  by (simp add: i32_at_def int32_def uint32_def Let_def)

lemma i32_at_mod: "off + 4 \<le> length d \<Longrightarrow> i32_at d off mod 4294967296 = u32_at d off"
  using u32_at_uint32 [of off d]
  by (auto simp: i32_at_def uint32_def Let_def)

lemma be32_u32_at: "off + 4 \<le> length d \<Longrightarrow> be32 (u32_at d off) = buf_slice d off (off + 4)"
  by (simp add: u32_at_def be32_be_val_len4 length_slice)

lemma be32_i32_at: "off + 4 \<le> length d \<Longrightarrow> be32 (i32_at d off mod 4294967296) = buf_slice d off (off + 4)"
  by (simp add: i32_at_mod be32_u32_at)

lemma readUInt32BE_at: "off + 4 \<le> length d \<Longrightarrow> readUInt32BE d off = Inr (u32_at d off)"
  by (simp add: readUInt32BE_def u32_at_def buf_slice_def)

lemma readInt32BE_at: "off + 4 \<le> length d \<Longrightarrow> readInt32BE d off = Inr (i32_at d off)"
  by (simp add: readInt32BE_def readUInt32BE_at i32_at_def Let_def)

lemma unpackHeader_fields:
  "length d = 128 \<Longrightarrow> unpackHeader d = Inr (header_fields d)"
  by (simp add: unpackHeader_def HEADER_SIZE_def readInt32BE_at readUInt32BE_at
      header_fields_def Let_def)

lemma unpackHeader_length:
  "length d \<noteq> 128 \<Longrightarrow> unpackHeader d = Inl (Error ''Header data must be 128 bytes'')"
  by (simp add: unpackHeader_def HEADER_SIZE_def)

lemma slice_chain:
  assumes "a \<le> b" "b \<le> c"
  shows "buf_slice d a b @ buf_slice d b c = buf_slice d a c"
proof -
  have e: "c - a = (b - a) + (c - b)" using assms by simp
  have "take (c - a) (drop a d) = take (b - a) (drop a d) @ take (c - b) (drop (b - a) (drop a d))"
    unfolding e by (rule take_add)
  moreover have "drop (b - a) (drop a d) = drop b d"
    using assms by simp
  ultimately show ?thesis by (simp add: buf_slice_def)
qed



section \<open>Parsing and composing messages\<close>

lemma adler_fold_bounds:
  "0 \<le> fst s \<Longrightarrow> fst s < 65521 \<Longrightarrow> 0 \<le> snd s \<Longrightarrow> snd s < 65521 \<Longrightarrow>
   0 \<le> fst (foldl adler_step s bs) \<and> fst (foldl adler_step s bs) < 65521
   \<and> 0 \<le> snd (foldl adler_step s bs) \<and> snd (foldl adler_step s bs) < 65521"
proof (induction bs arbitrary: s)
  case Nil
  then show ?case by simp
next
  case (Cons c bs)
  show ?case
    by (simp only: foldl_Cons) (rule Cons.IH; simp add: adler_step_def Let_def)
qed

lemma adler32_uint32: "uint32 (adler32 bs)"
  using adler_fold_bounds [of "(1, 0)" bs]
  by (simp add: adler32_def uint32_def Let_def)

lemma adler32_Nil: "adler32 [] = 1"
  by (simp add: adler32_def)

lemma be32_0: "be32 0 = zeros 4"
  by code_simp

lemma slice_take: "e \<le> n \<Longrightarrow> buf_slice (take n d) s e = buf_slice d s e"
  by (auto simp: buf_slice_def drop_take min_def)

lemma slice_append: "e \<le> length d \<Longrightarrow> buf_slice (d @ r) s e = buf_slice d s e"
  by (simp add: buf_slice_def)

lemma slice_0: "buf_slice d 0 n = take n d"
  by (simp add: buf_slice_def)

lemma slice_to_end: "length d = n \<Longrightarrow> buf_slice d s n = drop s d"
  by (simp add: buf_slice_def)

lemma header_fields_take: "header_fields (take 128 d) = header_fields d"
  by (simp add: header_fields_def u32_at_def i32_at_def slice_take)

lemma header_fields_append: "length d = 128 \<Longrightarrow> header_fields (d @ r) = header_fields d"
  by (simp add: header_fields_def u32_at_def i32_at_def slice_append)

lemma uint32_0: "uint32 0"
  by (simp add: uint32_def)

lemma or_zeros_nonempty: "s \<noteq> [] \<Longrightarrow> or_zeros s n = s"
  by (simp add: or_zeros_def)

lemma tmphdr_eq:
  assumes len: "length d = 128"
  shows "packHeader ((header_fields d)\<lparr>h_header_checksum := 0\<rparr>)
           = Inr (take 8 d @ zeros 4 @ drop 12 d)"
proof -
  let ?h = "(header_fields d)\<lparr>h_header_checksum := 0\<rparr>"
  have p1: "length (buf_slice d 36 48) = 12" and p2: "length (buf_slice d 80 128) = 48"
    using len by (simp_all add: length_slice)
  have p1': "or_zeros (h_pad1 ?h) 12 = buf_slice d 36 48"
    using p1 by (intro or_zeros_nonempty [THEN trans]) (auto simp: header_fields_def)
  have p2': "or_zeros (h_pad2 ?h) 48 = buf_slice d 80 128"
    using p2 by (intro or_zeros_nonempty [THEN trans]) (auto simp: header_fields_def)
  have "packHeader ?h =
     Inr (h_magic ?h @ be32 (h_version ?h mod 4294967296) @ be32 (h_header_checksum ?h)
          @ be32 (h_body_checksum ?h) @ be32 (h_body_size ?h mod 4294967296)
          @ be32 (h_flags ?h mod 4294967296) @ be32 (h_unused ?h mod 4294967296)
          @ be32 (h_command ?h mod 4294967296) @ be32 (h_error_code ?h mod 4294967296)
          @ buf_slice d 36 48 @ h_key ?h @ buf_slice d 80 128)"
    using len
    by (intro packHeader_explicit p1 p2 p1' p2')
      (simp_all add: header_fields_def i32_at_int32 u32_at_uint32 length_slice uint32_0)
  also have "\<dots> = Inr (buf_slice d 0 4 @ buf_slice d 4 8 @ zeros 4 @ buf_slice d 12 16
      @ buf_slice d 16 20 @ buf_slice d 20 24 @ buf_slice d 24 28 @ buf_slice d 28 32
      @ buf_slice d 32 36 @ buf_slice d 36 48 @ buf_slice d 48 80 @ buf_slice d 80 128)"
    using len by (simp add: header_fields_def be32_i32_at be32_u32_at be32_0)
  also have "\<dots> = Inr (buf_slice d 0 8 @ zeros 4 @ buf_slice d 12 128)"
    by (simp add: slice_chain)
  finally show ?thesis
    using len by (simp add: slice_0 slice_to_end)
qed


lemma tmphdr_ge:
  assumes "128 \<le> length data"
  shows "packHeader ((header_fields data)\<lparr>h_header_checksum := 0\<rparr>)
           = Inr (take 8 data @ zeros 4 @ buf_slice data 12 128)"
proof -
  have "length (take 128 data) = 128" using assms by simp
  from tmphdr_eq [OF this] show ?thesis
    by (simp add: header_fields_take buf_slice_def drop_take)
qed

lemma parseRaw_short:
  "length data < 128 \<Longrightarrow> parseRaw data rr = Inl (Error ''Need to pass at least 128 bytes'')"
  by (simp add: parseRaw_def HEADER_SIZE_def)

lemma parseRaw_long:
  assumes "128 \<le> length data"
  shows "parseRaw data False =
     (let h = header_fields data;
          body_data = (if length data > 128 then Some (drop 128 data) else None)
      in if h_magic h \<noteq> HEADER_MAGIC then Inl (Error ''Bad header magic'')
         else if h_version h \<notin> set versions then Inl (UnknownVersion (h_version h))
         else if h_header_checksum h \<noteq> adler32 (take 8 data @ zeros 4 @ buf_slice data 12 128)
         then Inl (Error ''Header checksum does not match'')
         else if truthy body_data \<and> h_body_size h = - 1
         then Inl (Error ''Cannot handle stream header with data attached'')
         else if (case body_data of None \<Rightarrow> False
                  | Some b \<Rightarrow> b \<noteq> [] \<and> h_body_size h \<noteq> int (length b))
         then Inl (Error ''Message body size does not match available data'')
         else if (case body_data of None \<Rightarrow> False
                  | Some b \<Rightarrow> b \<noteq> [] \<and> h_body_checksum h \<noteq> adler32 b)
         then Inl (Error ''Body checksum does not match'')
         else if h_command h \<notin> set commands then Inl (UnknownCommand (h_command h))
         else Inr (Message (h_version h) (h_flags h) (h_unused h) (h_command h)
                     (h_error_code h) (h_key h) body_data (Some (h_body_size h)), None))"
proof -
  have u: "unpackHeader (take 128 data) = Inr (header_fields data)"
    using assms by (simp add: unpackHeader_fields header_fields_take)
  show ?thesis
    using assms
    by (simp add: parseRaw_def HEADER_SIZE_def substr_to_def substr_from_def u tmphdr_ge
        Let_def)
qed

lemma set_versions: "{0x00000001, 0x00030001} = set versions"
  by (simp add: versions_def)

lemma set_commands:
  "{1, 3, 4, 5, 6, 0x14, 0x15, 0x16, 0x17, 0x18, 0x19, 0x1a, 0x1b} = set commands"
  by (simp add: commands_def)

lemma explicit_slices:
  assumes "length mg = 4" "length g1 = 4" "length g2 = 4" "length g3 = 4" "length g4 = 4"
    "length g5 = 4" "length g6 = 4" "length g7 = 4" "length g8 = 4"
    "length p1 = 12" "length k = 32" "length p2 = 48"
    and H: "H = mg @ g1 @ g2 @ g3 @ g4 @ g5 @ g6 @ g7 @ g8 @ p1 @ k @ p2"
  shows "length H = 128"
    "buf_slice H 0 4 = mg" "buf_slice H 4 8 = g1" "buf_slice H 8 12 = g2"
    "buf_slice H 12 16 = g3" "buf_slice H 16 20 = g4" "buf_slice H 20 24 = g5"
    "buf_slice H 24 28 = g6" "buf_slice H 28 32 = g7" "buf_slice H 32 36 = g8"
    "buf_slice H 36 48 = p1" "buf_slice H 48 80 = k" "buf_slice H 80 128 = p2"
    "take 8 H = mg @ g1" "buf_slice H 12 128 = g3 @ g4 @ g5 @ g6 @ g7 @ g8 @ p1 @ k @ p2"
  using assms by (simp_all add: buf_slice_def)

lemma i32_roundtrip:
  assumes "int32 v"
  shows "(let u = be_val (be32 (v mod 4294967296))
          in if u \<ge> 2147483648 then u - 4294967296 else u) = v"
proof -
  have "be_val (be32 (v mod 4294967296)) = v mod 4294967296"
    by (rule be_val_be32) simp_all
  moreover have "v mod 4294967296 = (if v < 0 then v + 4294967296 else v)"
    using assms by (auto simp: int32_def intro: int_mod_pos_eq [where q = "- 1"] mod_pos_pos_trivial)
  ultimately show ?thesis
    using assms by (simp add: int32_def Let_def)
qed



section \<open>Composing and parsing back\<close>

lemma or_zeros_Nil: "or_zeros [] n = zeros n"
  by (simp add: or_zeros_def)

lemma u32_roundtrip: "uint32 v \<Longrightarrow> be_val (be32 v) = v"
  by (rule be_val_be32) (simp_all add: uint32_def)

lemma roundtrip_lemma:
  assumes v: "m_version m \<in> set versions" and c: "m_command m \<in> set commands"
    and r: "int32 (m_flags m)" "int32 (m_unused m)" "int32 (m_error_code m)"
    and k: "length (m_key m) = 32"
    and bs: "int32 (m_body_size m)" and bc: "uint32 (m_body_checksum m)"
    and body: "m_body m = None \<and> m_body_checksum m = 1
       \<or> (\<exists>b. m_body m = Some b \<and> b \<noteq> [] \<and> m_body_size m = int (length b)
               \<and> m_body_checksum m = adler32 b)"
  shows "roundtrip m = Inr (m, None) \<and> composed_magic m = Inr ''acpp''"
proof -
  define E where "E hc = ''acpp'' @ be32 (m_version m mod 4294967296) @ be32 hc
          @ be32 (m_body_checksum m) @ be32 (m_body_size m mod 4294967296)
          @ be32 (m_flags m mod 4294967296) @ be32 (m_unused m mod 4294967296)
          @ be32 (m_command m mod 4294967296) @ be32 (m_error_code m mod 4294967296)
          @ zeros 12 @ m_key m @ zeros 48" for hc
  define A where "A = adler32 (E 0)"
  define rest where "rest = (case m_body m of Some b \<Rightarrow> b | None \<Rightarrow> [])"
  have vr: "int32 (m_version m)" using v by (auto simp: versions_def int32_def)
  have cr: "int32 (m_command m)" using c by (auto simp: commands_def int32_def)
  have pack: "packHeader
       \<lparr>h_magic = HEADER_MAGIC, h_version = m_version m, h_header_checksum = hc,
        h_body_checksum = m_body_checksum m, h_body_size = m_body_size m,
        h_flags = m_flags m, h_unused = m_unused m, h_command = m_command m,
        h_error_code = m_error_code m, h_key = m_key m, h_pad1 = [], h_pad2 = []\<rparr>
      = Inr (E hc)" if "uint32 hc" for hc
    unfolding E_def
    by (rule packHeader_explicit [THEN trans])
      (simp_all add: vr cr r k bs bc that or_zeros_Nil HEADER_MAGIC_def)
  have ch: "composeHeader m = Inr (E A)"
    by (simp add: composeHeader_def pack uint32_0 adler32_uint32 A_def)
  have cp: "composeRawPacket m = Inr (E A @ rest)"
    using body by (auto simp: composeRawPacket_def ch truthy_def rest_def)
  note sl = explicit_slices [OF _ _ _ _ _ _ _ _ _ _ _ _ E_def [of A], simplified, OF k]
  have lenE: "length (E A) = 128" by (rule sl(1))
  have hf: "header_fields (E A @ rest) = header_fields (E A)"
    by (rule header_fields_append [OF lenE])
  have f_magic: "h_magic (header_fields (E A)) = ''acpp''"
    by (simp add: header_fields_def sl)
  have f_version: "h_version (header_fields (E A)) = m_version m"
    using i32_roundtrip [OF vr] by (simp add: header_fields_def i32_at_def u32_at_def sl)
  have uA: "uint32 A" by (simp add: A_def adler32_uint32)
  have f_hc: "h_header_checksum (header_fields (E A)) = A"
    by (simp add: header_fields_def u32_at_def sl u32_roundtrip uA)
  have f_bc: "h_body_checksum (header_fields (E A)) = m_body_checksum m"
    by (simp add: header_fields_def u32_at_def sl u32_roundtrip bc)
  have f_bs: "h_body_size (header_fields (E A)) = m_body_size m"
    using i32_roundtrip [OF bs] by (simp add: header_fields_def i32_at_def u32_at_def sl)
  have f_flags: "h_flags (header_fields (E A)) = m_flags m"
    using i32_roundtrip [OF r(1)] by (simp add: header_fields_def i32_at_def u32_at_def sl)
  have f_unused: "h_unused (header_fields (E A)) = m_unused m"
    using i32_roundtrip [OF r(2)] by (simp add: header_fields_def i32_at_def u32_at_def sl)
  have f_command: "h_command (header_fields (E A)) = m_command m"
    using i32_roundtrip [OF cr] by (simp add: header_fields_def i32_at_def u32_at_def sl)
  have f_ec: "h_error_code (header_fields (E A)) = m_error_code m"
    using i32_roundtrip [OF r(3)] by (simp add: header_fields_def i32_at_def u32_at_def sl)
  have f_key: "h_key (header_fields (E A)) = m_key m"
    by (simp add: header_fields_def sl)
  have zeroed: "take 8 (E A @ rest) @ zeros 4 @ buf_slice (E A @ rest) 12 128 = E 0"
    using lenE by (simp add: slice_append sl) (simp add: E_def be32_0)
  have ge: "128 \<le> length (E A @ rest)" using lenE by simp
  have drop_rest: "drop 128 (E A @ rest) = rest" using lenE by simp
  have len_gt: "128 < length (E A @ rest) \<longleftrightarrow> rest \<noteq> []" using lenE by simp
  have parse: "parseRaw (E A @ rest) False = Inr (m, None)"
    unfolding parseRaw_long [OF ge] Let_def hf f_magic f_version f_hc f_bc f_bs f_flags f_unused
      f_command f_ec f_key zeroed drop_rest len_gt
    using body v c  A_def
    by (auto simp: HEADER_MAGIC_def rest_def truthy_def Message_def)
  have "take 4 (E A @ rest) = ''acpp''"
    by (simp add: E_def)
  with cp parse show ?thesis
    by (simp add: roundtrip_def composed_magic_def)
qed


lemma parseRaw_key_length:
  assumes "parseRaw data False = Inr (x, r)"
  shows "length (m_key x) = 32"
proof (cases "length data < 128")
  case True
  with assms show ?thesis by (simp add: parseRaw_short)
next
  case False
  then have ge: "128 \<le> length data" by simp
  from assms show ?thesis
    unfolding parseRaw_long [OF ge] Let_def
    using ge
    by (auto simp: Message_def header_fields_def length_slice split: if_splits option.splits)
qed

lemma parseRaw_body_nonempty:
  assumes "parseRaw data False = Inr (x, r)"
  shows "m_body x \<noteq> Some []"
proof (cases "length data < 128")
  case True
  with assms show ?thesis by (simp add: parseRaw_short)
next
  case False
  then have ge: "128 \<le> length data" by simp
  from assms show ?thesis
    unfolding parseRaw_long [OF ge] Let_def
    using ge
    by (auto simp: Message_def split: if_splits option.splits)
qed

lemma roundtrip_parse:
  "roundtrip m = Inr (x, r) \<Longrightarrow> \<exists>raw. parseRaw raw False = Inr (x, r)"
  by (cases "composeRawPacket m") (auto simp: roundtrip_def)

text \<open>
  C1, as stated, fails: a message with an empty body comes back without a body, a key
  shorter than 32 bytes comes back padded with NUL bytes, and flags beyond a signed
  32-bit integer make composing throw.
\<close>

theorem roundtrip_counterexample:
  "claimed_shape msg_empty_body \<and> roundtrip msg_empty_body \<noteq> Inr (msg_empty_body, None)
   \<and> claimed_shape msg_short_key \<and> roundtrip msg_short_key \<noteq> Inr (msg_short_key, None)
   \<and> claimed_shape msg_big_flags \<and> roundtrip msg_big_flags = Inl RangeError"
proof -
  have s: "claimed_shape msg_empty_body" "claimed_shape msg_short_key"
    "claimed_shape msg_big_flags"
    by (simp_all add: claimed_shape_def msg_empty_body_def msg_short_key_def msg_big_flags_def
        Message_def)
  have e: "roundtrip msg_empty_body \<noteq> Inr (msg_empty_body, None)"
  proof
    assume "roundtrip msg_empty_body = Inr (msg_empty_body, None)"
    then obtain raw where "parseRaw raw False = Inr (msg_empty_body, None)"
      using roundtrip_parse by blast
    then have "m_body msg_empty_body \<noteq> Some []"
      by (rule parseRaw_body_nonempty)
    then show False
      by (simp add: msg_empty_body_def Message_def)
  qed
  have k: "roundtrip msg_short_key \<noteq> Inr (msg_short_key, None)"
  proof
    assume "roundtrip msg_short_key = Inr (msg_short_key, None)"
    then obtain raw where "parseRaw raw False = Inr (msg_short_key, None)"
      using roundtrip_parse by blast
    then have "length (m_key msg_short_key) = 32"
      by (rule parseRaw_key_length)
    then show False
      by (simp add: msg_short_key_def Message_def)
  qed
  have f: "roundtrip msg_big_flags = Inl RangeError"
    by code_simp
  from s e k f show ?thesis by simp
qed

text \<open>
  C1, amended. For every message whose version and command are recognised, whose flags,
  unused field, error code and body size fit a signed 32-bit integer, whose key is exactly
  32 bytes, and which has either no body (and body checksum 1) or a non-empty body with
  the body size equal to its length and the body checksum its Adler-32: composing the
  message and parsing the result succeeds and returns the message itself, and the
  composed bytes begin with \<open>acpp\<close>.
\<close>

theorem roundtrip_amended:
  assumes "m_version m \<in> {0x00000001, 0x00030001}"
    and "m_command m \<in> {1, 3, 4, 5, 6, 0x14, 0x15, 0x16, 0x17, 0x18, 0x19, 0x1a, 0x1b}"
    and "int32 (m_flags m)" "int32 (m_unused m)" "int32 (m_error_code m)"
    and "int32 (m_body_size m)"
    and "length (m_key m) = 32"
    and "case m_body m of None \<Rightarrow> m_body_checksum m = 1
         | Some b \<Rightarrow> b \<noteq> [] \<and> m_body_size m = int (length b)
                      \<and> m_body_checksum m = adler32 b"
  shows "roundtrip m = Inr (m, None) \<and> composed_magic m = Inr ''acpp''"
proof (rule roundtrip_lemma)
  show "m_version m \<in> set versions" using assms(1) by (simp add: versions_def)
  show "m_command m \<in> set commands" using assms(2) by (simp add: commands_def)
  show "uint32 (m_body_checksum m)"
    using assms(8) adler32_uint32 by (auto simp: uint32_def split: option.splits)
  show "m_body m = None \<and> m_body_checksum m = 1
       \<or> (\<exists>b. m_body m = Some b \<and> b \<noteq> [] \<and> m_body_size m = int (length b)
               \<and> m_body_checksum m = adler32 b)"
    using assms(8) by (auto split: option.splits)
qed (use assms in simp_all)

theorem roundtrip_amended_witness:
  "roundtrip (Message 0x00030001 4 0 0x14 0 (zeros 32) (Some ''syAP'') None)
     = Inr (Message 0x00030001 4 0 0x14 0 (zeros 32) (Some ''syAP'') None, None)
   \<and> composed_magic (Message 0x00030001 4 0 0x14 0 (zeros 32) (Some ''syAP'') None)
     = Inr ''acpp''"
  using roundtrip_amended [of "Message 0x00030001 4 0 0x14 0 (zeros 32) (Some ''syAP'') None"]
  by (simp add: Message_def int32_def)

section \<open>When parsing fails\<close>

text \<open>
  C2. \<open>Message.parseRaw(data)\<close> fails exactly when the data is shorter than 128 bytes,
  or the magic is not \<open>acpp\<close>, or the version is neither \<open>0x00000001\<close> nor
  \<open>0x00030001\<close>, or the header checksum differs from the Adler-32 of the 128-byte header
  with its checksum field zeroed, or the command is not in the recognised set, or a body is
  supplied (the data is longer than 128 bytes) and its length differs from the body size,
  or its Adler-32 differs from the body checksum, or the body size is -1. Otherwise it
  returns the message read off the header, with the supplied body.
\<close>

theorem parseRaw_fails_iff:
  "((\<exists>e. parseRaw data False = Inl e) \<longleftrightarrow> parse_fails data)
   \<and> (\<not> parse_fails data \<longrightarrow> parseRaw data False = Inr (parsed_message data, None))"
proof (cases "length data < 128")
  case True
  then show ?thesis by (simp add: parseRaw_short parse_fails_def)
next
  case False
  then have ge: "128 \<le> length data" by simp
  have hf: "h_magic (header_fields data) = take 4 data"
    "h_version (header_fields data) = i32_at data 4"
    "h_header_checksum (header_fields data) = u32_at data 8"
    "h_body_checksum (header_fields data) = u32_at data 12"
    "h_body_size (header_fields data) = i32_at data 16"
    "h_flags (header_fields data) = i32_at data 20"
    "h_unused (header_fields data) = i32_at data 24"
    "h_command (header_fields data) = i32_at data 28"
    "h_error_code (header_fields data) = i32_at data 32"
    "h_key (header_fields data) = buf_slice data 48 80"
    by (simp_all add: header_fields_def slice_0)
  show ?thesis
  proof (cases "length data > 128")
    case True
    then have ne: "drop 128 data \<noteq> []" by simp
    show ?thesis
      using True ne
      unfolding parseRaw_long [OF ge] parse_fails_def parsed_message_def set_versions
        set_commands Let_def hf HEADER_MAGIC_def truthy_def
      by (simp split: if_splits)
  next
    case F2: False
    with ge have eq: "length data = 128" by simp
    show ?thesis
      using eq
      unfolding parseRaw_long [OF ge] parse_fails_def parsed_message_def set_versions
        set_commands Let_def hf HEADER_MAGIC_def truthy_def
      by (simp split: if_splits)
  qed
qed

theorem parseRaw_fails_iff_witness:
  "\<not> parse_fails getprop_header
   \<and> parseRaw getprop_header False
       = Inr (Message 0x00030001 0 0 0x14 0 (zeros 32) None (Some 0), None)"
proof -
  have nf: "\<not> parse_fails getprop_header"
    by code_simp
  have pm: "parsed_message getprop_header = Message 0x00030001 0 0 0x14 0 (zeros 32) None (Some 0)"
    by code_simp
  show ?thesis
    using parseRaw_fails_iff [of getprop_header] nf pm by simp
qed


section \<open>The property table initialiser on the shipped catalogue\<close>

lemma catalogue_types_documented:
  "list_all (\<lambda>(n, t, d, v). t \<in> set documented_types) acp_properties"
  by code_simp

text \<open>
  C9. Every entry of the catalogue carries a documented type tag, but the initialiser
  \<open>generateACPProperties\<close> does not accept the shipped catalogue: it accepts only the
  types \<open>str\<close>, \<open>dec\<close>, \<open>hex\<close>, \<open>log\<close>, \<open>mac\<close>, \<open>cfb\<close> and \<open>bin\<close>, and throws its
  bad-type error at the entry \<open>syAP\<close>, whose type is \<open>u32\<close>.
\<close>

theorem generateACPProperties_shipped:
  "generateACPProperties acp_properties = Inl (BadType ''syAP'' ''u32'')"
  by (simp add: generateACPProperties_def acp_properties_def types_def)

section \<open>Property elements\<close>

lemma Property_packHeader_explicit:
  assumes "length n = 4" "uint32 f" "uint32 sz"
  shows "Property_packHeader \<lparr>hd_name = n, hd_flags = f, hd_size = sz\<rparr>
           = Inr (n @ be32 f @ be32 sz)"
proof -
  define b0 where "b0 = buf_write (zeros 12) n 0 4"
  have b0: "b0 = n @ zeros 8"
    using assms(1) by (simp add: b0_def buf_write_def write_at_def)
  have s1: "writeUInt32BE b0 f 4 = Inr (n @ be32 f @ zeros 4)"
    using assms by (simp add: writeUInt32BE_ok b0)
  have s2: "writeUInt32BE (n @ be32 f @ zeros 4) sz 8 = Inr (n @ be32 f @ be32 sz)"
    using assms by (simp add: writeUInt32BE_ok)
  show ?thesis
    unfolding Property_packHeader_def Let_def
    by (simp add: b0_def [symmetric] s1 s2)
qed

lemma Property_no_value:
  assumes "n \<in> set (getSupportedPropertyNames props)"
  shows "Property props (Some n) None = Inr \<lparr>p_name = Some n, p_value = None\<rparr>"
  using assms
  by (auto simp: Property_def Let_def value_truthy_def truthy_def)

lemma Property_number_0:
  assumes "n \<in> set (getSupportedPropertyNames props)"
  shows "Property props (Some n) (Some (Number 0))
           = Inr \<lparr>p_name = Some n, p_value = Some (Number 0)\<rparr>"
  using assms
  by (auto simp: Property_def Let_def value_truthy_def truthy_def)

lemma uint32_4: "uint32 4"
  by (simp add: uint32_def)

lemma composeRawElement_no_value:
  assumes "length n = 4" "uint32 f"
  shows "composeRawElement f \<lparr>p_name = Some n, p_value = None\<rparr>
           = Inr (n @ be32 f @ be32 4 @ zeros 4)"
  using assms
  by (auto simp: composeRawElement_def composeRawElementHeader_def truthy_def
      Property_packHeader_explicit uint32_4)

lemma number_buffer_ok: "uint32 v \<Longrightarrow> number_buffer v = Inr (be32 v)"
  by (simp add: number_buffer_def writeUInt32BE_ok)

lemma composeRawElement_number:
  assumes "length n = 4" "uint32 f" "uint32 v"
  shows "composeRawElement f \<lparr>p_name = Some n, p_value = Some (Number v)\<rparr>
           = Inr (n @ be32 f @ be32 4 @ be32 v)"
  using assms
  by (auto simp: composeRawElement_def composeRawElementHeader_def truthy_def
      Property_packHeader_explicit uint32_4 number_buffer_ok)

lemma be32_4: "be32 4 = [CHR 0x00, CHR 0x00, CHR 0x00, CHR 0x04]"
  by code_simp

lemma be32_0_chars: "be32 0 = [CHR 0x00, CHR 0x00, CHR 0x00, CHR 0x00]"
  by code_simp

lemma getProperties_body_name:
  assumes "n \<in> set (getSupportedPropertyNames props)" "length n = 4"
  shows "getProperties_body props gks password [ByName n]
           = Inr (Some (n @ zeros 4 @ [CHR 0x00, CHR 0x00, CHR 0x00, CHR 0x04] @ zeros 4))"
  using assms
  by (simp add: getProperties_body_def getProperties_request_def Property_no_value
      composeRawElement_no_value uint32_0 be32_0 be32_4 composeGetPropCommand_def Message_def)

text \<open>
  C7, amended. For \<open>getProperties\<close> with the single tag \<open>syAP\<close>, listed in the property
  table, the body of the outbound GetProp message is exactly 16 bytes: the 4-byte tag,
  then flags 0, then size 4, then four NUL value bytes.
\<close>

theorem getProperties_syAP_body:
  assumes "''syAP'' \<in> set (getSupportedPropertyNames props)"
  shows "getProperties_body props gks password [ByName ''syAP'']
           = Inr (Some (''syAP'' @ zeros 4 @ [CHR 0x00, CHR 0x00, CHR 0x00, CHR 0x04] @ zeros 4))"
  using assms by (simp add: getProperties_body_name)

theorem getProperties_syAP_body_witness:
  "getProperties_body syAP_table zeros [] [ByName ''syAP'']
     = Inr (Some (''syAP'' @ zeros 4 @ [CHR 0x00, CHR 0x00, CHR 0x00, CHR 0x04] @ zeros 4))"
  using getProperties_syAP_body [of syAP_table zeros "[]"]
  by (simp add: syAP_table_def getSupportedPropertyNames_def)

text \<open>
  C7, as stated, fails: the body is not the 12 bytes \<open>syAP\<close> followed by eight zero
  bytes, because \<open>composeRawElement\<close> gives a property without a value four NUL bytes
  as its value.
\<close>

theorem getProperties_syAP_body_counterexample:
  "getProperties_body syAP_table zeros [] [ByName ''syAP''] \<noteq> Inr (Some (''syAP'' @ zeros 8))"
proof -
  have "getProperties_body syAP_table zeros [] [ByName ''syAP'']
     = Inr (Some (''syAP'' @ zeros 4 @ [CHR 0x00, CHR 0x00, CHR 0x00, CHR 0x04] @ zeros 4))"
    by (rule getProperties_body_name) (simp_all add: syAP_table_def getSupportedPropertyNames_def)
  moreover have "''syAP'' @ zeros 4 @ [CHR 0x00, CHR 0x00, CHR 0x00, CHR 0x04] @ zeros 4
                   \<noteq> ''syAP'' @ zeros 8"
  proof
    assume "''syAP'' @ zeros 4 @ [CHR 0x00, CHR 0x00, CHR 0x00, CHR 0x04] @ zeros 4
              = ''syAP'' @ zeros 8"
    then have "length (''syAP'' @ zeros 4 @ [CHR 0x00, CHR 0x00, CHR 0x00, CHR 0x04] @ zeros 4)
                 = length (''syAP'' @ zeros 8)"
      by (rule arg_cong)
    then show False by simp
  qed
  ultimately show ?thesis by simp
qed

lemma composeRawElement_number_0:
  assumes "length n = 4" "uint32 f"
  shows "composeRawElement f \<lparr>p_name = Some n, p_value = Some (Number 0)\<rparr>
           = Inr (n @ be32 f @ [CHR 0x00, CHR 0x00, CHR 0x00, CHR 0x04]
                  @ [CHR 0x00, CHR 0x00, CHR 0x00, CHR 0x00])"
  using composeRawElement_number [OF assms uint32_0] by (simp add: be32_4 be32_0_chars)

lemma reboot_request_acRB:
  assumes "''acRB'' \<in> set (getSupportedPropertyNames props)"
  shows "reboot_request props gks password
           = Inr (composeSetPropCommand gks 0 password
                    (''acRB'' @ zeros 4 @ [CHR 0x00, CHR 0x00, CHR 0x00, CHR 0x04]
                     @ [CHR 0x00, CHR 0x00, CHR 0x00, CHR 0x00]))"
proof -
  have "composeRawElement 0 \<lparr>p_name = Some ''acRB'', p_value = Some (Number 0)\<rparr>
           = Inr (''acRB'' @ zeros 4 @ [CHR 0x00, CHR 0x00, CHR 0x00, CHR 0x04]
                  @ [CHR 0x00, CHR 0x00, CHR 0x00, CHR 0x00])"
    using composeRawElement_number_0 [of "''acRB''" 0] by (simp add: uint32_0 be32_0)
  then show ?thesis
    using assms
    by (simp add: reboot_request_def setProperties_request_def Property_number_0)
qed

text \<open>
  C10. For every name of the property table (a 4-byte name), constructing a property
  with the number 0 as its value succeeds whatever the type and the validator of the
  entry are, since the value is falsy and the initialiser and the validator are skipped;
  the stored value is the number 0, not a Buffer; and \<open>composeRawElement\<close> encodes the
  element as the 12-byte header with size 4 followed by the four bytes of the big-endian
  integer 0. The reboot operation sends exactly this element for \<open>acRB\<close>.
\<close>

theorem Property_number_0_element:
  assumes "n \<in> set (getSupportedPropertyNames props)" and "length n = 4" and "uint32 f"
  shows "Property props (Some n) (Some (Number 0))
           = Inr \<lparr>p_name = Some n, p_value = Some (Number 0)\<rparr>
       \<and> composeRawElement f \<lparr>p_name = Some n, p_value = Some (Number 0)\<rparr>
           = Inr (n @ be32 f @ [CHR 0x00, CHR 0x00, CHR 0x00, CHR 0x04]
                  @ [CHR 0x00, CHR 0x00, CHR 0x00, CHR 0x00])
       \<and> (''acRB'' \<in> set (getSupportedPropertyNames props) \<longrightarrow>
            reboot_request props gks password
              = Inr (composeSetPropCommand gks 0 password
                       (''acRB'' @ zeros 4 @ [CHR 0x00, CHR 0x00, CHR 0x00, CHR 0x04]
                        @ [CHR 0x00, CHR 0x00, CHR 0x00, CHR 0x00])))"
  using assms
  by (simp add: Property_number_0 composeRawElement_number_0 reboot_request_acRB)

theorem Property_number_0_element_witness:
  "Property acRB_table (Some ''acRB'') (Some (Number 0))
     = Inr \<lparr>p_name = Some ''acRB'', p_value = Some (Number 0)\<rparr>
   \<and> composeRawElement 0 \<lparr>p_name = Some ''acRB'', p_value = Some (Number 0)\<rparr>
     = Inr (''acRB'' @ zeros 4 @ [CHR 0x00, CHR 0x00, CHR 0x00, CHR 0x04]
            @ [CHR 0x00, CHR 0x00, CHR 0x00, CHR 0x00])
   \<and> reboot_request acRB_table zeros []
     = Inr (composeSetPropCommand zeros 0 []
              (''acRB'' @ zeros 4 @ [CHR 0x00, CHR 0x00, CHR 0x00, CHR 0x04]
               @ [CHR 0x00, CHR 0x00, CHR 0x00, CHR 0x00]))"
  using Property_number_0_element [of "''acRB''" acRB_table 0 zeros "[]"]
  by (simp add: acRB_table_def getSupportedPropertyNames_def uint32_0 be32_0)



section \<open>Receiving\<close>

lemma Buffer_slice_take: "0 \<le> n \<Longrightarrow> Buffer_slice b 0 (Some n) = take (nat n) b"
  by (auto simp: Buffer_slice_def clamp_index_def min_def)

lemma Buffer_slice_drop: "0 \<le> n \<Longrightarrow> Buffer_slice b n None = drop (nat n) b"
  by (auto simp: Buffer_slice_def clamp_index_def min_def)

lemma take_split:
  "take n (a @ r) = take n a @ take (n - length (take n a)) (drop (length (take n a)) a @ r)"
  by (cases "n \<le> length a") (simp_all add: min_def)

lemma drop_split:
  "drop n (a @ r) = drop (n - length (take n a)) (drop (length (take n a)) a @ r)"
  by (cases "n \<le> length a") (simp_all add: min_def)

lemma receiveSize_loop_char:
  assumes "0 \<le> timeout" "lr \<le> s_now s" "0 \<le> w" "w > 0 \<longrightarrow> s_buffer s = []"
  shows "if nat w \<le> length (pending s ticks)
         then \<exists>s' t'. receiveSize_loop timeout ticks s w chunks lr
                  = Some (Inr (concat chunks @ take (nat w) (pending s ticks)), s', t')
                \<and> pending s' t' = drop (nat w) (pending s ticks)
                \<and> s' = s\<lparr>s_buffer := s_buffer s', s_now := s_now s'\<rparr>
         else receiveSize_loop timeout ticks s w chunks lr = None"
  using assms
proof (induction ticks arbitrary: s w chunks lr)
  case Nil
  then show ?case by (auto simp: pending_def)
next
  case (Cons t ticks)
  show ?case
  proof (cases "w > 0")
    case False
    with Cons.prems have "w = 0" by simp
    then show ?thesis by (simp add: pending_def)
  next
    case True
    with Cons.prems have empty: "s_buffer s = []" by simp
    define received where "received = take (nat w) (arrived t)"
    define s2 where "s2 = (sleep t s)\<lparr>s_buffer := drop (length received) (arrived t)\<rparr>"
    define w' where "w' = w - int (length received)"
    have step: "receiveSize_loop timeout (t # ticks) s w chunks lr
                  = receiveSize_loop timeout ticks s2 w' (chunks @ [received]) (s_now s2)"
      using True Cons.prems(1,2)
      by (simp add: Let_def sleep_def empty Buffer_slice_take Buffer_slice_drop
          received_def s2_def w'_def)
    have w'0: "0 \<le> w'" using True by (simp add: w'_def received_def)
    have inv: "w' > 0 \<longrightarrow> s_buffer s2 = []"
      by (auto simp: w'_def received_def s2_def)
    have nw: "nat w' = nat w - length received"
      using True by (simp add: w'_def received_def nat_diff_distrib')
    have p: "pending s (t # ticks) = arrived t @ concat (map arrived ticks)"
      by (simp add: pending_def empty)
    have p2: "pending s2 ticks = drop (length received) (arrived t) @ concat (map arrived ticks)"
      by (simp add: pending_def s2_def)
    have tk: "take (nat w) (pending s (t # ticks)) = received @ take (nat w') (pending s2 ticks)"
      unfolding p p2 nw received_def by (rule take_split)
    have dr: "drop (nat w) (pending s (t # ticks)) = drop (nat w') (pending s2 ticks)"
      unfolding p p2 nw received_def by (rule drop_split)
    have len: "nat w \<le> length (pending s (t # ticks)) \<longleftrightarrow> nat w' \<le> length (pending s2 ticks)"
      unfolding p p2 nw received_def by (auto simp: min_def)
    have frame: "s' = s\<lparr>s_buffer := s_buffer s', s_now := s_now s'\<rparr>"
      if "s' = s2\<lparr>s_buffer := s_buffer s', s_now := s_now s'\<rparr>" for s'
      using that by (simp add: s2_def sleep_def)
    note IH = Cons.IH [where s = s2 and lr = "s_now s2" and w = w' and chunks = "chunks @ [received]",
        OF Cons.prems(1) _ w'0 inv, simplified]
    show ?thesis
    proof (cases "nat w' \<le> length (pending s2 ticks)")
      case enough: True
      with IH obtain s' t' where
        r: "receiveSize_loop timeout ticks s2 w' (chunks @ [received]) (s_now s2)
              = Some (Inr (concat chunks @ received @ take (nat w') (pending s2 ticks)), s', t')"
        and p: "pending s' t' = drop (nat w') (pending s2 ticks)"
        and f: "s' = s2\<lparr>s_buffer := s_buffer s', s_now := s_now s'\<rparr>"
        by auto
      from frame [OF f] r p enough show ?thesis
        unfolding step len tk dr by auto
    next
      case False
      with IH show ?thesis
        unfolding step len by simp
    qed
  qed
qed


lemma receiveSize_loop_no_error:
  assumes "0 \<le> timeout" "lr \<le> s_now s"
  shows "receiveSize_loop timeout ticks s w chunks lr \<noteq> Some (Inl e, s', t')"
  using assms
proof (induction ticks arbitrary: s w chunks lr)
  case Nil
  then show ?case by simp
next
  case (Cons t ticks)
  show ?case
  proof (cases "w > 0")
    case False
    then show ?thesis by simp
  next
    case True
    with Cons.prems show ?thesis
      by (simp add: Let_def Cons.IH)
  qed
qed

lemma timeout_arg_nonneg:
  "(case timeout_arg of None \<Rightarrow> True | Some t \<Rightarrow> 0 \<le> t)
     \<Longrightarrow> 0 \<le> (case timeout_arg of None \<Rightarrow> 10000 | Some t \<Rightarrow> (t::int))"
  by (cases timeout_arg) simp_all

lemma receive_no_error:
  assumes "case timeout_arg of None \<Rightarrow> True | Some t \<Rightarrow> 0 \<le> t"
  shows "receive sz timeout_arg s ticks \<noteq> Some (Inl e, s', t')"
  using receiveSize_loop_no_error [OF timeout_arg_nonneg [OF assms],
      where lr = "s_now s"
        and s = "s\<lparr>s_reading := s_reading s + 1,
                     s_buffer := Buffer_slice (s_buffer s) sz None\<rparr>"]
  by (auto simp: receive_def receiveSize_def Let_def)

lemma receive_char:
  assumes "0 \<le> sz" and tmo: "case timeout_arg of None \<Rightarrow> True | Some t \<Rightarrow> 0 \<le> t"
  shows "if nat sz \<le> length (pending s ticks)
         then \<exists>s' t'. receive sz timeout_arg s ticks
                  = Some (Inr (take (nat sz) (pending s ticks)), s', t')
                \<and> pending s' t' = drop (nat sz) (pending s ticks)
                \<and> s' = s\<lparr>s_buffer := s_buffer s', s_now := s_now s'\<rparr>
         else receive sz timeout_arg s ticks = None"
proof -
  define chunk where "chunk = take (nat sz) (s_buffer s)"
  define s1 where "s1 = s\<lparr>s_reading := s_reading s + 1, s_buffer := drop (nat sz) (s_buffer s)\<rparr>"
  define w where "w = sz - int (length chunk)"
  define timeout where "timeout = (case timeout_arg of None \<Rightarrow> 10000 | Some t \<Rightarrow> (t::int))"
  have t0: "0 \<le> timeout" unfolding timeout_def by (rule timeout_arg_nonneg [OF tmo])
  have rs: "receive sz timeout_arg s ticks
      = map_option (\<lambda>(r, s, ticks). (r, s\<lparr>s_reading := s_reading s - 1\<rparr>, ticks))
          (receiveSize_loop timeout ticks s1 w [chunk] (s_now s1))"
    using assms(1)
    by (simp add: receive_def receiveSize_def Let_def Buffer_slice_take Buffer_slice_drop
        chunk_def s1_def w_def timeout_def)
  have w0: "0 \<le> w" using assms(1) by (simp add: w_def chunk_def)
  have inv: "w > 0 \<longrightarrow> s_buffer s1 = []"
    by (auto simp: w_def chunk_def s1_def)
  have nw: "nat w = nat sz - length chunk"
    using assms(1) by (simp add: w_def chunk_def nat_diff_distrib')
  have p: "pending s ticks = s_buffer s @ concat (map arrived ticks)"
    by (simp add: pending_def)
  have p1: "pending s1 ticks = drop (length chunk) (s_buffer s) @ concat (map arrived ticks)"
    by (simp add: pending_def s1_def chunk_def min_def)
  have tk: "take (nat sz) (pending s ticks) = chunk @ take (nat w) (pending s1 ticks)"
    unfolding p p1 nw chunk_def by (rule take_split)
  have dr: "drop (nat sz) (pending s ticks) = drop (nat w) (pending s1 ticks)"
    unfolding p p1 nw chunk_def by (rule drop_split)
  have len: "nat sz \<le> length (pending s ticks) \<longleftrightarrow> nat w \<le> length (pending s1 ticks)"
    unfolding p p1 nw chunk_def by (auto simp: min_def)
  note C = receiveSize_loop_char [where s = s1 and lr = "s_now s1" and w = w and chunks = "[chunk]"
      and timeout = timeout and ticks = ticks, OF t0 _ w0 inv, simplified]
  show ?thesis
  proof (cases "nat w \<le> length (pending s1 ticks)")
    case enough: True
    with C obtain s' t' where
      r: "receiveSize_loop timeout ticks s1 w [chunk] (s_now s1)
            = Some (Inr (chunk @ take (nat w) (pending s1 ticks)), s', t')"
      and q: "pending s' t' = drop (nat w) (pending s1 ticks)"
      and f: "s' = s1\<lparr>s_buffer := s_buffer s', s_now := s_now s'\<rparr>"
      by auto
    define s'' where "s'' = s'\<lparr>s_reading := s_reading s' - 1\<rparr>"
    from f obtain b n where g: "s' = s1\<lparr>s_buffer := b, s_now := n\<rparr>"
      by blast
    have f'': "s'' = s\<lparr>s_buffer := s_buffer s'', s_now := s_now s''\<rparr>"
      unfolding s''_def g by (simp add: s1_def)
    have q'': "pending s'' t' = drop (nat w) (pending s1 ticks)"
      using q by (simp add: pending_def s''_def)
    have "receive sz timeout_arg s ticks
            = Some (Inr (take (nat sz) (pending s ticks)), s'', t')"
      by (simp add: rs r tk s''_def)
    with q'' f'' enough show ?thesis
      unfolding len dr by auto
  next
    case False
    with C show ?thesis
      unfolding len by (simp add: rs)
  qed
qed



text \<open>
  C5. The first half of the claim holds (\<open>receive_char\<close>: for a non-negative size, once
  the bytes are there the call returns exactly that many, in arrival order, and until
  then it does not return). The second half fails: the test
  \<open>last_received_at > Date.now() + timeout\<close> never succeeds for a timeout that is not
  negative (\<open>receive_no_error\<close>), so no timeout error is ever raised, whatever the
  timeout. Here a receive of one byte with a timeout of 3 ms sees nothing during ten
  polls, 1 ms apart: it is still waiting after them, and when a byte arrives with the
  tenth poll it returns that byte.
\<close>

theorem receive_silence_no_timeout:
  "receive 1 (Some 3) idle_session (replicate 10 \<lparr>elapsed = 1, arrived = []\<rparr>) = None
   \<and> receive 1 (Some 3) idle_session
         (replicate 9 \<lparr>elapsed = 1, arrived = []\<rparr> @ [\<lparr>elapsed = 1, arrived = ''x''\<rparr>])
       = Some (Inr ''x'', idle_session\<lparr>s_now := 10\<rparr>, [])"
  by code_simp

section \<open>Reading the reply of getProperties\<close>

lemma Property_Buffer_name:
  assumes "Property props (Some n) (Some (Buffer v)) = Inr p"
  shows "p_name p = Some n"
  using assms
  by (auto simp: Property_def Let_def ebind_def split: if_splits option.splits sum.splits)

lemma getProperties_loop_never_returns:
  assumes "getProperties_loop props acc s ticks = Some r"
  shows "\<forall>xs. fst r \<noteq> Inr xs"
proof (rule getProperties_loop.raw_induct
    [where P = "\<lambda>props acc s ticks r. \<forall>xs. fst r \<noteq> Inr xs", OF _ assms], goal_cases)
  case (1 f props acc s ticks r)
  from 1(2) show ?case
    by (auto split: option.splits sum.splits prod.splits if_splits
        dest: Property_Buffer_name 1(1))
qed

lemma getProperties_never_returns:
  "getProperties props gks password names s ticks \<noteq> Some (Inr xs, s', t')"
proof
  assume a: "getProperties props gks password names s ticks = Some (Inr xs, s', t')"
  then obtain s1 t1 where "getProperties_loop props [] s1 t1 = Some (Inr xs, s', t')"
    by (auto simp: getProperties_def split: option.splits sum.splits prod.splits if_splits)
  from getProperties_loop_never_returns [OF this] show False by simp
qed

text \<open>
  C3. The loop of \<open>getProperties\<close> ends only when the constructed property has neither
  name nor value, which the constructor arranges only for the name and the value both
  equal to the string of four NUL bytes; the value read from the session is a Buffer, so
  this never happens and \<open>getProperties\<close> never returns a list
  (\<open>getProperties_never_returns\<close>). On a reply with one property and the terminator
  element it fails at the terminator with the invalid-name error of the constructor.
\<close>

theorem getProperties_terminator:
  "map_option fst
     (getProperties syNm_table zeros [] [ByName ''syNm''] idle_session
        [\<lparr>elapsed = 5, arrived = syNm_reply\<rparr>])
   = Some (Inl (InvalidPropertyName (zeros 4)))"
  by code_simp

section \<open>Authentication\<close>


















section \<open>Unsolicited data\<close>

lemma readUInt32BE_take8:
  "8 \<le> length P \<Longrightarrow> readUInt32BE (take 8 P) 4 = Inr (u32_at P 4)"
  using readUInt32BE_at [of 4 "take 8 P"] slice_take [of 8 8 P 4]
  by (simp add: u32_at_def)

lemma u32_at_nonneg: "0 \<le> u32_at P off"
proof -
  have "0 \<le> foldl (\<lambda>acc c. acc * 256 + of_char c) a bs" if "0 \<le> a" for a :: int and bs
    using that
  proof (induction bs arbitrary: a)
    case Nil
    then show ?case by simp
  next
    case (Cons c bs)
    have "0 \<le> a * 256 + of_char c" using Cons.prems of_char_bounds(1) [of c] by simp
    then show ?case by (simp add: Cons.IH)
  qed
  then show ?thesis by (simp add: u32_at_def be_val_def)
qed

lemma handleMonitorData_char:
  fixes s :: "'v session" and ticks :: "tick list"
  defines "P \<equiv> pending s ticks"
  defines "n \<equiv> nat (u32_at (pending s ticks) 4)"
  shows "if 8 + n \<le> length P
         then \<exists>s' t'. handleMonitorData parse s ticks = Some (Inr (), s', t')
                \<and> pending s' t' = drop (8 + n) P
                \<and> s' = (case parse (take n (drop 8 P)) of
                          Inr v \<Rightarrow> s\<lparr>s_buffer := s_buffer s', s_now := s_now s',
                                     s_monitor_data := s_monitor_data s @ [v]\<rparr>
                        | Inl e \<Rightarrow> s\<lparr>s_buffer := s_buffer s', s_now := s_now s',
                                     s_console := s_console s
                                       @ [ConsoleError ''Error parsing monitor data'']\<rparr>)
         else handleMonitorData parse s ticks = None"
proof (cases "8 \<le> length P")
  case False
  with receive_char [of 8 None s ticks] show ?thesis
    by (simp add: handleMonitorData_def P_def)
next
  case True
  with receive_char [of 8 None s ticks] obtain s1 t1 where
    r1: "receive 8 None s ticks = Some (Inr (take 8 P), s1, t1)"
    and p1: "pending s1 t1 = drop 8 P"
    and f1: "s1 = s\<lparr>s_buffer := s_buffer s1, s_now := s_now s1\<rparr>"
    by (auto simp: P_def)
  have rd: "readUInt32BE (take 8 P) 4 = Inr (u32_at P 4)"
    using True by (rule readUInt32BE_take8)
  have n0: "0 \<le> u32_at P 4" by (rule u32_at_nonneg)
  have hm: "handleMonitorData parse s ticks =
      (case receive (u32_at P 4) None s1 t1 of
         None \<Rightarrow> None
       | Some (Inl e, s, ticks) \<Rightarrow> Some (Inl e, s, ticks)
       | Some (Inr body, s, ticks) \<Rightarrow>
           (case parse body of
              Inr data \<Rightarrow> Some (Inr (), s\<lparr>s_monitor_data := s_monitor_data s @ [data]\<rparr>, ticks)
            | Inl err \<Rightarrow>
                Some (Inr (),
                      s\<lparr>s_console := s_console s @ [ConsoleError ''Error parsing monitor data'']\<rparr>,
                      ticks)))"
    by (simp add: handleMonitorData_def r1 rd)
  note C = receive_char [of "u32_at P 4" None s1 t1, OF n0, simplified, unfolded p1,
      folded n_def [unfolded P_def [symmetric]]]
  show ?thesis
  proof (cases "8 + n \<le> length P")
    case False
    with True have "\<not> n \<le> length (drop 8 P)" by simp
    with C False show ?thesis by (simp add: hm)
  next
    case enough: True
    then have "n \<le> length (drop 8 P)" by simp
    with C obtain s2 t2 where
      r2: "receive (u32_at P 4) None s1 t1 = Some (Inr (take n (drop 8 P)), s2, t2)"
      and p2: "pending s2 t2 = drop n (drop 8 P)"
      and f2: "s2 = s1\<lparr>s_buffer := s_buffer s2, s_now := s_now s2\<rparr>"
      by auto
    from f1 obtain b1 n1 where g1: "s1 = s\<lparr>s_buffer := b1, s_now := n1\<rparr>" by blast
    from f2 obtain b2 n2 where g2: "s2 = s1\<lparr>s_buffer := b2, s_now := n2\<rparr>" by blast
    have g: "s2 = s\<lparr>s_buffer := b2, s_now := n2\<rparr>" unfolding g2 g1 by simp
    have p2': "s_buffer s2 @ concat (map arrived t2) = drop (8 + n) P"
      using p2 by (simp add: pending_def add.commute)
    show ?thesis
    proof (cases "parse (take n (drop 8 P))")
      case (Inr v)
      with enough p2' show ?thesis
        by (simp add: hm r2 pending_def g)
    next
      case (Inl e)
      with enough p2' show ?thesis
        by (simp add: hm r2 pending_def g)
    qed
  qed
qed


lemma handleData_loop_frame:
  "handleData_loop Inr (idle_session\<lparr>s_buffer := monitor_frame @ ''acpp''\<rparr>) []
     = Some (idle_session\<lparr>s_monitor_data := [[CHR 0xD0, CHR 0x00]],
                          s_console := [Warn ''Unknown data received'']\<rparr>, [])"
  by code_simp

lemma handleData_loop_rest:
  "s_reading s \<noteq> 0 \<or> s_buffer s = [] \<Longrightarrow> handleData_loop parse s ticks = Some (s, ticks)"
  by (subst handleData_loop.simps) auto

text \<open>
  C8, amended. A chunk that arrives while the reading depth is not 0 is only appended
  to the buffer; one that arrives while it is 0 is appended and \<open>_handleData\<close> runs.
  \<open>_handleData\<close> does nothing when the reading depth is not 0 or the buffer is empty.
  Otherwise let \<open>P\<close> be the bytes buffered or arriving, and \<open>n\<close> the big-endian
  unsigned 32-bit value at offset 4 of \<open>P\<close>. If the buffer begins with \<open>XE\<close> and the
  8 + n bytes of the frame arrive, the session consumes them, parses the n bytes after
  the 8-byte header and emits the parsed value as a monitor event (or logs an error when
  parsing fails), and goes on with what remains. If the buffer begins with anything else,
  the session logs a warning and empties the buffer.
\<close>

theorem on_data_dispatch:
  fixes s :: "'v session" and ticks :: "tick list"
  defines "P \<equiv> pending s ticks"
  defines "n \<equiv> nat (u32_at (pending s ticks) 4)"
  shows "on_data parse data s ticks
           = (if s_reading s = 0
              then handleData_loop parse (s\<lparr>s_buffer := s_buffer s @ data\<rparr>) ticks
              else Some (s\<lparr>s_buffer := s_buffer s @ data\<rparr>, ticks))
       \<and> (s_reading s \<noteq> 0 \<or> s_buffer s = [] \<longrightarrow>
            handleData_loop parse s ticks = Some (s, ticks))
       \<and> (s_reading s = 0 \<and> take 2 (s_buffer s) = ''XE'' \<and> 8 + n \<le> length P \<longrightarrow>
            (\<exists>s' t'. handleData parse s ticks = Some (Inr (), s', t')
                \<and> pending s' t' = drop (8 + n) P
                \<and> s' = (case parse (take n (drop 8 P)) of
                          Inr v \<Rightarrow> s\<lparr>s_buffer := s_buffer s', s_now := s_now s',
                                     s_monitor_data := s_monitor_data s @ [v]\<rparr>
                        | Inl e \<Rightarrow> s\<lparr>s_buffer := s_buffer s', s_now := s_now s',
                                     s_console := s_console s
                                       @ [ConsoleError ''Error parsing monitor data'']\<rparr>)
                \<and> handleData_loop parse s ticks = handleData_loop parse s' t'))
       \<and> (s_reading s = 0 \<and> s_buffer s \<noteq> [] \<and> take 2 (s_buffer s) \<noteq> ''XE'' \<longrightarrow>
            handleData_loop parse s ticks
              = Some (s\<lparr>s_console := s_console s @ [Warn ''Unknown data received''],
                        s_buffer := []\<rparr>,
                      ticks))"
proof -
  have sl: "Buffer_slice (s_buffer s) 0 (Some 2) = take 2 (s_buffer s)"
    by (simp add: Buffer_slice_take)
  have ev: "on_data parse data s ticks
           = (if s_reading s = 0
              then handleData_loop parse (s\<lparr>s_buffer := s_buffer s @ data\<rparr>) ticks
              else Some (s\<lparr>s_buffer := s_buffer s @ data\<rparr>, ticks))"
    by (simp add: on_data_def Let_def)
  have rest: "handleData_loop parse s ticks = Some (s, ticks)"
    if "s_reading s \<noteq> 0 \<or> s_buffer s = []"
    using that by (rule handleData_loop_rest)
  have other: "handleData_loop parse s ticks
              = Some (s\<lparr>s_console := s_console s @ [Warn ''Unknown data received''],
                        s_buffer := []\<rparr>,
                      ticks)"
    if "s_reading s = 0" "s_buffer s \<noteq> []" "take 2 (s_buffer s) \<noteq> ''XE''"
  proof -
    have "handleData parse s ticks
            = Some (Inr (),
                    s\<lparr>s_console := s_console s @ [Warn ''Unknown data received''],
                      s_buffer := []\<rparr>,
                    ticks)"
      using that(3) by (simp add: handleData_def sl)
    then show ?thesis
      using that(1,2)
      by (subst handleData_loop.simps) (simp add: handleData_loop_rest)
  qed
  have frame: "\<exists>s' t'. handleData parse s ticks = Some (Inr (), s', t')
                \<and> pending s' t' = drop (8 + n) P
                \<and> s' = (case parse (take n (drop 8 P)) of
                          Inr v \<Rightarrow> s\<lparr>s_buffer := s_buffer s', s_now := s_now s',
                                     s_monitor_data := s_monitor_data s @ [v]\<rparr>
                        | Inl e \<Rightarrow> s\<lparr>s_buffer := s_buffer s', s_now := s_now s',
                                     s_console := s_console s
                                       @ [ConsoleError ''Error parsing monitor data'']\<rparr>)
                \<and> handleData_loop parse s ticks = handleData_loop parse s' t'"
    if r: "s_reading s = 0" and xe: "take 2 (s_buffer s) = ''XE''" and enough: "8 + n \<le> length P"
  proof -
    have hd: "handleData parse s ticks = handleMonitorData parse s ticks"
      using xe by (simp add: handleData_def sl)
    from handleMonitorData_char [of s ticks parse, folded P_def n_def] enough
    obtain s' t' where
      m: "handleMonitorData parse s ticks = Some (Inr (), s', t')"
      and p: "pending s' t' = drop (8 + n) P"
      and s': "s' = (case parse (take n (drop 8 P)) of
                          Inr v \<Rightarrow> s\<lparr>s_buffer := s_buffer s', s_now := s_now s',
                                     s_monitor_data := s_monitor_data s @ [v]\<rparr>
                        | Inl e \<Rightarrow> s\<lparr>s_buffer := s_buffer s', s_now := s_now s',
                                     s_console := s_console s
                                       @ [ConsoleError ''Error parsing monitor data'']\<rparr>)"
      by auto
    from xe have ne: "s_buffer s \<noteq> []" by auto
    have "handleData_loop parse s ticks = handleData_loop parse s' t'"
      using r ne by (subst handleData_loop.simps) (simp add: hd m)
    with m p s' show ?thesis unfolding hd by blast
  qed
  from ev rest other frame show ?thesis by blast
qed


text \<open>
  C8, as stated, fails: a reading depth of 0 and a buffer that begins with \<open>XE\<close> do
  not make the session dispatch. A receive of 4 bytes during which \<open>abcd\<close> and a whole
  monitor frame arrive returns \<open>abcd\<close> and ends with the reading depth 0 and the frame
  at the head of the buffer; no monitor event has been emitted, and the next receive
  takes the bytes of the frame.
\<close>

theorem on_data_dispatch_counterexample:
  "receive 4 None idle_session [\<lparr>elapsed = 1, arrived = ''abcd'' @ monitor_frame\<rparr>]
     = Some (Inr ''abcd'', idle_session\<lparr>s_buffer := monitor_frame, s_now := 1\<rparr>, [])
   \<and> s_reading (idle_session\<lparr>s_buffer := monitor_frame, s_now := 1\<rparr>) = 0
   \<and> take 2 (s_buffer (idle_session\<lparr>s_buffer := monitor_frame, s_now := 1\<rparr>)) = ''XE''
   \<and> s_monitor_data (idle_session\<lparr>s_buffer := monitor_frame, s_now := 1\<rparr>) = []
   \<and> receive 10 None (idle_session\<lparr>s_buffer := monitor_frame, s_now := 1\<rparr>) []
       = Some (Inr monitor_frame, idle_session\<lparr>s_now := 1\<rparr>, [])"
  by code_simp

theorem on_data_dispatch_witness:
  "on_data Inr monitor_frame (idle_session\<lparr>s_reading := 1\<rparr>) []
     = Some (idle_session\<lparr>s_reading := 1, s_buffer := monitor_frame\<rparr>, [])
   \<and> on_data Inr (monitor_frame @ ''acpp'') idle_session []
       = handleData_loop Inr
           (idle_session\<lparr>s_buffer := ''acpp'', s_monitor_data := [[CHR 0xD0, CHR 0x00]]\<rparr>) []
   \<and> handleData_loop Inr
         (idle_session\<lparr>s_buffer := ''acpp'', s_monitor_data := [[CHR 0xD0, CHR 0x00]]\<rparr>) []
       = Some (idle_session\<lparr>s_monitor_data := [[CHR 0xD0, CHR 0x00]],
                            s_console := [Warn ''Unknown data received'']\<rparr>, [])"
proof -
  let ?busy = "idle_session\<lparr>s_reading := 1\<rparr> :: bytes session"
  let ?s0 = "idle_session\<lparr>s_buffer := monitor_frame @ ''acpp''\<rparr> :: bytes session"
  let ?s1 = "idle_session\<lparr>s_buffer := ''acpp'', s_monitor_data := [[CHR 0xD0, CHR 0x00]]\<rparr>
               :: bytes session"
  have busy: "s_reading ?busy \<noteq> 0" by simp
  have "on_data Inr monitor_frame ?busy [] = Some (?busy\<lparr>s_buffer := s_buffer ?busy @ monitor_frame\<rparr>, [])"
    using on_data_dispatch [of Inr monitor_frame ?busy "[]"] busy by simp
  then have one: "on_data Inr monitor_frame ?busy []
      = Some (idle_session\<lparr>s_reading := 1, s_buffer := monitor_frame\<rparr>, [])"
    by (simp add: idle_session_def)
  have idle: "s_reading (idle_session :: bytes session) = 0" "s_reading ?s0 = 0" "s_reading ?s1 = 0"
    by (simp_all add: idle_session_def)
  have s0: "idle_session\<lparr>s_buffer := s_buffer idle_session @ monitor_frame @ ''acpp''\<rparr> = ?s0"
    by (simp add: idle_session_def)
  have ev: "on_data Inr (monitor_frame @ ''acpp'') idle_session [] = handleData_loop Inr ?s0 []"
    using on_data_dispatch [of Inr "monitor_frame @ ''acpp''" idle_session "[]"] idle
    by (simp add: s0)
  have P: "pending ?s0 [] = monitor_frame @ ''acpp''"
    by (simp add: pending_def)
  have u: "u32_at (monitor_frame @ ''acpp'') 4 = 2"
    by code_simp
  have xe: "take 2 (s_buffer ?s0) = ''XE''"
    by (simp add: monitor_frame_def)
  have len: "length monitor_frame = 10"
    by (simp add: monitor_frame_def)
  have hd: "handleData Inr ?s0 [] = Some (Inr (), ?s1, [])"
    by code_simp
  from on_data_dispatch [of Inr "[]" ?s0 "[]"] idle xe
  have "\<exists>s' t'. handleData Inr ?s0 [] = Some (Inr (), s', t')
          \<and> handleData_loop Inr ?s0 [] = handleData_loop Inr s' t'"
    unfolding P u by (simp add: len) blast
  then have two: "handleData_loop Inr ?s0 [] = handleData_loop Inr ?s1 []"
    unfolding hd by simp
  have o: "s_buffer ?s1 \<noteq> []" "take 2 (s_buffer ?s1) \<noteq> ''XE''"
    by simp_all
  have "handleData_loop Inr ?s1 []
      = Some (?s1\<lparr>s_console := s_console ?s1 @ [Warn ''Unknown data received''], s_buffer := []\<rparr>, [])"
    using on_data_dispatch [of Inr "[]" ?s1 "[]"] idle o by simp
  then have three: "handleData_loop Inr ?s1 []
      = Some (idle_session\<lparr>s_monitor_data := [[CHR 0xD0, CHR 0x00]],
                            s_console := [Warn ''Unknown data received'']\<rparr>, [])"
    by (simp add: idle_session_def)
  from one ev two three show ?thesis by simp
qed

end
